theory Spec2Isabelle
  imports
    Main
    "HOL-Library.AList"
    "HOL-Library.Sublist"
    "HOL-Library.Char_ord"
    "HOL-Library.List_Lexorder"
begin

section \<open>Python values used by bot.py\<close>

text \<open>
  A Python \<open>str\<close> is a list of code points. Every literal of bot.py lies in Latin-1, so a
  \<^typ>\<open>char\<close> stands for one code point below 256 (\<open>CHR 0xE1\<close> is the a-acute of
  the weekday header). Python compares strings code point by code point, which is the
  lexicographic order of \<^typ>\<open>string\<close> over the order of \<^typ>\<open>char\<close>.

  A Python \<open>dict\<close> with string keys keeps its insertion order: it is an association list
  with distinct keys. \<open>d[k] = v\<close> is \<^const>\<open>AList.update\<close> (an existing key keeps its
  place, a new key goes last), \<open>d.get(k)\<close> is \<^const>\<open>map_of\<close>.
\<close>

type_synonym 'v dict = "(string \<times> 'v) list"

datatype discord_error = NotFound | Forbidden | HTTPException

datatype erro =
    IllegalMonthError
  | ValueError
  | KeyError
  | JSONDecodeError
  | FileNotFoundError
  | MissingPermissions
  | Discord discord_error

subsection \<open>Formatting integers\<close>

definition digit_char :: "nat \<Rightarrow> char" where
  "digit_char d = char_of (48 + d)"

fun digits :: "nat \<Rightarrow> string" where
  "digits n = (if n < 10 then [digit_char n] else digits (n div 10) @ [digit_char (n mod 10)])"

declare digits.simps [simp del]

definition str_int :: "int \<Rightarrow> string" where
  \<comment> \<open>\<open>str(i)\<close>, and \<open>f"{i}"\<close>\<close>
  "str_int i = (if i < 0 then CHR ''-'' # digits (nat (- i)) else digits (nat i))"

definition rjust :: "nat \<Rightarrow> char \<Rightarrow> string \<Rightarrow> string" where
  "rjust w c s = replicate (w - length s) c @ s"

definition fmt_0d :: "nat \<Rightarrow> int \<Rightarrow> string" where
  \<comment> \<open>\<open>f"{i:0wd}"\<close>: zeros go between the sign and the digits\<close>
  "fmt_0d w i =
     (if i < 0 then CHR ''-'' # rjust (w - 1) (CHR ''0'') (digits (nat (- i)))
      else rjust w (CHR ''0'') (digits (nat i)))"

definition fmt_2d :: "int \<Rightarrow> string" where
  \<comment> \<open>\<open>f"{i:2d}"\<close>: right-justified with spaces\<close>
  "fmt_2d i = rjust 2 (CHR '' '') (str_int i)"

subsection \<open>Strings\<close>

fun join :: "string \<Rightarrow> string list \<Rightarrow> string" where
  "join sep [] = []"
| "join sep [x] = x"
| "join sep (x # y # ys) = x @ sep @ join sep (y # ys)"

fun split_sep :: "char \<Rightarrow> string \<Rightarrow> string list" where
  \<comment> \<open>\<open>s.split(c)\<close> for a separator of one character\<close>
  "split_sep c [] = [[]]"
| "split_sep c (x # xs) =
     (if x = c then [] # split_sep c xs
      else (case split_sep c xs of [] \<Rightarrow> [[x]] | w # ws \<Rightarrow> (x # w) # ws))"

abbreviation startswith :: "string \<Rightarrow> string \<Rightarrow> bool" where
  "startswith s p \<equiv> prefix p s"

subsection \<open>The standard library: calendar and datetime\<close>

text \<open>
  \<open>calendar.Calendar(firstweekday=0).monthdayscalendar\<close> and \<open>datetime.strptime\<close> are
  CPython's, written out here after Lib/calendar.py, Lib/_pydatetime.py and
  Lib/_strptime.py. Python's \<open>//\<close> and \<open>%\<close> round down, as \<open>div\<close> and \<open>mod\<close> on
  \<^typ>\<open>int\<close> do.
\<close>

definition isleap :: "int \<Rightarrow> bool" where
  "isleap y = (y mod 4 = 0 \<and> (y mod 100 \<noteq> 0 \<or> y mod 400 = 0))"

definition mdays :: "int \<Rightarrow> int" where
  "mdays m = [0, 31, 28, 31, 30, 31, 30, 31, 31, 30, 31, 30, 31] ! nat m"

definition days_in_month :: "int \<Rightarrow> int \<Rightarrow> int" where
  "days_in_month y m = mdays m + (if m = 2 \<and> isleap y then 1 else 0)"

definition days_before_year :: "int \<Rightarrow> int" where
  "days_before_year year =
     (let y = year - 1 in y * 365 + y div 4 - y div 100 + y div 400)"

definition days_before_month :: "int \<Rightarrow> int \<Rightarrow> int" where
  "days_before_month y m =
     [0, 0, 31, 59, 90, 120, 151, 181, 212, 243, 273, 304, 334] ! nat m
       + (if m > 2 \<and> isleap y then 1 else 0)"

definition date_weekday :: "int \<Rightarrow> int \<Rightarrow> int \<Rightarrow> int" where
  \<comment> \<open>\<open>datetime.date(y, m, d).weekday()\<close>, Monday is 0; for a year in 1..9999\<close>
  "date_weekday y m d = (days_before_year y + days_before_month y m + d + 6) mod 7"

definition weekday :: "int \<Rightarrow> int \<Rightarrow> int \<Rightarrow> int" where
  \<comment> \<open>\<open>calendar.weekday\<close>: a year outside datetime's range is mapped into it\<close>
  "weekday year m d =
     (if \<not> (1 \<le> year \<and> year \<le> 9999) then date_weekday (2000 + year mod 400) m d
      else date_weekday year m d)"

definition monthrange :: "int \<Rightarrow> int \<Rightarrow> erro + (int \<times> int)" where
  "monthrange year month =
     (if \<not> (1 \<le> month \<and> month \<le> 12) then Inl IllegalMonthError
      else Inr (weekday year month 1, days_in_month year month))"

definition itermonthdays :: "int \<Rightarrow> int \<Rightarrow> erro + int list" where
  \<comment> \<open>with firstweekday = 0\<close>
  "itermonthdays year month =
     (case monthrange year month of
        Inl e \<Rightarrow> Inl e
      | Inr (day1, ndays) \<Rightarrow>
          Inr (replicate (nat ((day1 - 0) mod 7)) 0 @ [1..ndays]
                 @ replicate (nat ((0 - day1 - ndays) mod 7)) 0))"

function chunks :: "nat \<Rightarrow> 'a list \<Rightarrow> 'a list list" where
  \<comment> \<open>\<open>[xs[i:i+n] for i in range(0, len(xs), n)]\<close>\<close>
  "chunks n xs = (if n = 0 \<or> xs = [] then [] else take n xs # chunks n (drop n xs))"
  by pat_completeness auto
termination
  by (relation "measure (\<lambda>(n, xs). length xs)") auto

declare chunks.simps [simp del]

definition monthdayscalendar :: "int \<Rightarrow> int \<Rightarrow> erro + int list list" where
  "monthdayscalendar year month =
     (case itermonthdays year month of Inl e \<Rightarrow> Inl e | Inr days \<Rightarrow> Inr (chunks 7 days))"

definition is_digit :: "char \<Rightarrow> bool" where
  "is_digit c = (CHR ''0'' \<le> c \<and> c \<le> CHR ''9'')"

definition digit_val :: "char \<Rightarrow> int" where
  "digit_val c = int (of_char c) - 48"

fun strp_Y :: "string \<Rightarrow> (int \<times> string) option" where
  \<comment> \<open>\<open>%Y\<close>: exactly four digits\<close>
  "strp_Y (a # b # c # d # rest) =
     (if is_digit a \<and> is_digit b \<and> is_digit c \<and> is_digit d
      then Some (1000 * digit_val a + 100 * digit_val b + 10 * digit_val c + digit_val d, rest)
      else None)"
| "strp_Y _ = None"

fun strp_m :: "string \<Rightarrow> (int \<times> string) list" where
  \<comment> \<open>\<open>%m\<close> is \<open>1[0-2]|0[1-9]|[1-9]\<close>: the alternatives that match, in the order tried\<close>
  "strp_m (a # b # rest) =
     (if a = CHR ''1'' \<and> b \<in> set ''012'' then [(10 + digit_val b, rest)] else [])
     @ (if a = CHR ''0'' \<and> is_digit b \<and> b \<noteq> CHR ''0'' then [(digit_val b, rest)] else [])
     @ (if is_digit a \<and> a \<noteq> CHR ''0'' then [(digit_val a, b # rest)] else [])"
| "strp_m [a] = (if is_digit a \<and> a \<noteq> CHR ''0'' then [(digit_val a, [])] else [])"
| "strp_m [] = []"

fun strp_d :: "string \<Rightarrow> (int \<times> string) option" where
  \<comment> \<open>\<open>%d\<close> is \<open>3[0-1]|[1-2]\d|0[1-9]|[1-9]| [1-9]\<close>: the first alternative that matches\<close>
  "strp_d (a # b # rest) =
     (if a = CHR ''3'' \<and> b \<in> set ''01'' then Some (30 + digit_val b, rest)
      else if a \<in> set ''12'' \<and> is_digit b then Some (10 * digit_val a + digit_val b, rest)
      else if a = CHR ''0'' \<and> is_digit b \<and> b \<noteq> CHR ''0'' then Some (digit_val b, rest)
      else if is_digit a \<and> a \<noteq> CHR ''0'' then Some (digit_val a, b # rest)
      else if a = CHR '' '' \<and> is_digit b \<and> b \<noteq> CHR ''0'' then Some (digit_val b, rest)
      else None)"
| "strp_d [a] = (if is_digit a \<and> a \<noteq> CHR ''0'' then Some (digit_val a, []) else None)"
| "strp_d [] = None"

definition strptime_ymd :: "string \<Rightarrow> erro + (int \<times> int \<times> int)" where
  \<comment> \<open>\<open>datetime.strptime(s, "%Y-%m-%d")\<close> as (year, month, day). The pattern is matched
      with backtracking, then text left over or a day the month does not have is a
      ValueError.\<close>
  "strptime_ymd s =
     (case strp_Y s of
        None \<Rightarrow> Inl ValueError
      | Some (y, r1) \<Rightarrow>
          (case r1 of
             [] \<Rightarrow> Inl ValueError
           | c1 # r2 \<Rightarrow>
               if c1 \<noteq> CHR ''-'' then Inl ValueError
               else
                 (case List.map_filter
                         (\<lambda>(mo, r3). case r3 of
                              [] \<Rightarrow> None
                            | c2 # r4 \<Rightarrow>
                                if c2 \<noteq> CHR ''-'' then None
                                else (case strp_d r4 of
                                        None \<Rightarrow> None
                                      | Some (d, r5) \<Rightarrow> Some (mo, d, r5)))
                         (strp_m r2) of
                    [] \<Rightarrow> Inl ValueError
                  | (mo, d, r5) # _ \<Rightarrow>
                      if r5 \<noteq> [] then Inl ValueError
                      else if y < 1 \<or> d > days_in_month y mo then Inl ValueError
                      else Inr (y, mo, d))))"

section \<open>The stored document\<close>

text \<open>
  The layout that bot.py documents for \<open>data/ponto_data.json\<close>:
  \<open>registros[date][user_id] = {"name", "entrada", "saida"}\<close> and
  \<open>mensagens[month] = {"message_id"}\<close>. Either top-level key may be missing
  (the code reads both with \<open>.get(key, {})\<close>), and so may any field of a record
  (the renderer reads them with \<open>.get\<close> and a default).
\<close>

type_synonym info = "string dict"
type_synonym usuarios = "info dict"
type_synonym registros = "usuarios dict"
type_synonym message_info = "int dict"
type_synonym mensagens = "message_info dict"

record dados =
  registros :: "registros option"
  mensagens :: "mensagens option"

section \<open>Rendering the calendar\<close>

definition nl :: string where
  "nl = [CHR 0x0A]"

definition cerca :: string where
  "cerca = [CHR 0x60, CHR 0x60, CHR 0x60]"

definition cabecalho :: string where
  "cabecalho = ''Seg Ter Qua Qui Sex S'' @ [CHR 0xE1] @ ''b Dom''"

definition aviso_sem_registros :: string where
  "aviso_sem_registros =
     ''_Ainda n'' @ [CHR 0xE3] @ ''o h'' @ [CHR 0xE1] @ '' registros de ponto neste m''
       @ [CHR 0xEA] @ ''s._''"

definition titulo_registros :: string where
  "titulo_registros = ''**Registros de ponto por dia:**''"

definition month_key :: "int \<Rightarrow> int \<Rightarrow> string" where
  "month_key year month = fmt_0d 4 year @ ''-'' @ fmt_0d 2 month"

definition celula :: "int \<Rightarrow> string" where
  "celula day = (if day = 0 then ''   '' else fmt_2d day @ '' '')"

definition linha_semana :: "int list \<Rightarrow> string" where
  "linha_semana week = join '' '' (map celula week)"

definition registros_mes :: "string \<Rightarrow> registros \<Rightarrow> registros" where
  \<comment> \<open>the loop of lines 116 to 119\<close>
  "registros_mes mk regs =
     foldl (\<lambda>acc (data_str, us). if startswith data_str mk then AList.update data_str us acc else acc)
       [] regs"

definition so_hhmm :: "string \<Rightarrow> string" where
  \<comment> \<open>lines 137 to 140: keep HH:MM of a stamped time\<close>
  "so_hhmm t =
     (if t \<noteq> ''--:--'' \<and> CHR '' '' \<in> set t then take 5 (split_sep (CHR '' '') t ! 1) else t)"

definition linha_usuario :: "string \<Rightarrow> info \<Rightarrow> string" where
  "linha_usuario user_id info =
     (let nome = (case map_of info ''name'' of None \<Rightarrow> user_id | Some n \<Rightarrow> n);
          entrada = (case map_of info ''entrada'' of None \<Rightarrow> ''--:--'' | Some e \<Rightarrow> e);
          saida = (case map_of info ''saida'' of None \<Rightarrow> ''--:--'' | Some x \<Rightarrow> x)
      in ''- '' @ nome @ '': entrada '' @ so_hhmm entrada @ '' | sa'' @ [CHR 0xED] @ ''da ''
           @ so_hhmm saida)"

definition titulo_dia :: "int \<Rightarrow> int \<Rightarrow> string" where
  "titulo_dia dia month = nl @ ''__Dia '' @ fmt_0d 2 dia @ ''/'' @ fmt_0d 2 month @ ''__''"

fun linhas_dias :: "int \<Rightarrow> registros \<Rightarrow> string list \<Rightarrow> erro + string list" where
  \<comment> \<open>the loop of lines 127 to 141 over the sorted dates\<close>
  "linhas_dias month rm [] = Inr []"
| "linhas_dias month rm (data_str # rest) =
     (case strptime_ymd data_str of
        Inl e \<Rightarrow> Inl e
      | Inr (y, mo, dia) \<Rightarrow>
          (case map_of rm data_str of
             None \<Rightarrow> Inl KeyError
           | Some us \<Rightarrow>
               (case linhas_dias month rm rest of
                  Inl e \<Rightarrow> Inl e
                | Inr ls \<Rightarrow>
                    Inr (titulo_dia dia month # map (\<lambda>(user_id, info). linha_usuario user_id info) us
                           @ ls))))"

definition linhas_calendario :: "int \<Rightarrow> int \<Rightarrow> registros \<Rightarrow> erro + string list" where
  \<comment> \<open>the list \<open>linhas\<close> that renderizar_calendario joins\<close>
  "linhas_calendario year month regs =
     (case monthdayscalendar year month of
        Inl e \<Rightarrow> Inl e
      | Inr weeks \<Rightarrow>
          (let linhas = [cerca, cabecalho] @ map linha_semana weeks @ [cerca];
               rm = registros_mes (month_key year month) regs
           in if rm = [] then Inr (linhas @ [aviso_sem_registros])
              else (case linhas_dias month rm (sort (map fst rm)) of
                      Inl e \<Rightarrow> Inl e
                    | Inr ls \<Rightarrow> Inr (linhas @ [titulo_registros] @ ls))))"

definition renderizar_calendario :: "int \<Rightarrow> int \<Rightarrow> registros \<Rightarrow> erro + string" where
  "renderizar_calendario year month regs =
     (case linhas_calendario year month regs of
        Inl e \<Rightarrow> Inl e
      | Inr linhas \<Rightarrow> Inr (join nl linhas))"

section \<open>The world the bot acts on\<close>

text \<open>
  The handlers are \<open>async\<close> functions that read and write one file and call the chat
  platform. Each becomes a function from the world before to a result and the world
  after; a raised exception is \<open>Inl\<close>. The world holds the content of
  \<open>data/ponto_data.json\<close> (\<open>None\<close> while the file does not exist), the messages of the
  calendar channel by id, the id the platform gives to the next message, and the log of
  the calls made, oldest first. Writing the file and replying to the user are taken to
  succeed; the calls to the calendar channel can fail as \<open>ambiente\<close> says.

  \<open>json.load\<close> and \<open>json.dump\<close> are the standard library's: they are a parameter, a
  pair of functions between the text of the file (any type \<open>'t\<close>) and the document.
\<close>

record 't json =
  json_load :: "'t \<Rightarrow> erro + dados"
  json_dump :: "dados \<Rightarrow> 't"

record embed =
  title :: string
  description :: string

datatype 't evento =
    FileWrite 't
  | FileRead
  | Print string
  | FetchChannel int
  | FetchMessage "int option"
  | MessageEdit int embed
  | ChannelSend embed
  | CtxSend string
  | CtxSendEmbed embed
  | ResponseSend string

record 't mundo =
  arquivo :: "'t option"
  canal :: "int \<rightharpoonup> embed"
  proximo_id :: int
  trace :: "'t evento list"

record ambiente =
  calendar_channel_id :: int
  canal_em_cache :: bool
  falha_fetch_channel :: "discord_error option"
  falha_fetch_message :: "discord_error option"
  falha_edit :: "discord_error option"
  falha_send :: "discord_error option"

definition registrar_evento :: "'t evento \<Rightarrow> 't mundo \<Rightarrow> 't mundo" where
  "registrar_evento ev w = w\<lparr>trace := trace w @ [ev]\<rparr>"

subsection \<open>Persistence\<close>

definition documento_vazio :: dados where
  "documento_vazio = \<lparr>registros = Some [], mensagens = Some []\<rparr>"

definition garantir_arquivo :: "'t json \<Rightarrow> 't mundo \<Rightarrow> 't mundo" where
  "garantir_arquivo J w =
     (if arquivo w = None
      then registrar_evento (FileWrite (json_dump J documento_vazio))
             (w\<lparr>arquivo := Some (json_dump J documento_vazio)\<rparr>)
      else w)"

definition carregar_dados :: "'t json \<Rightarrow> 't mundo \<Rightarrow> (erro + dados) \<times> 't mundo" where
  "carregar_dados J w =
     (let w1 = garantir_arquivo J w in
      case arquivo w1 of
        None \<Rightarrow> (Inl FileNotFoundError, w1)
      | Some t \<Rightarrow> (json_load J t, registrar_evento FileRead w1))"

definition salvar_dados :: "'t json \<Rightarrow> dados \<Rightarrow> 't mundo \<Rightarrow> 't mundo" where
  "salvar_dados J d w =
     registrar_evento (FileWrite (json_dump J d)) (w\<lparr>arquivo := Some (json_dump J d)\<rparr>)"

record datetime =
  dt_year :: int
  dt_month :: int
  dt_day :: int
  dt_hour :: int
  dt_minute :: int

definition strftime_Y :: "int \<Rightarrow> string" where
  \<comment> \<open>\<open>%Y\<close> of \<open>strftime\<close> with the C library of Linux: the year in decimal, with no
      padding (a datetime has a year from 1 to 9999)\<close>
  "strftime_Y y = str_int y"

definition get_month_key :: "datetime \<Rightarrow> string" where
  "get_month_key dt = strftime_Y (dt_year dt) @ ''-'' @ fmt_0d 2 (dt_month dt)"

definition get_date_str :: "datetime \<Rightarrow> string" where
  "get_date_str dt =
     strftime_Y (dt_year dt) @ ''-'' @ fmt_0d 2 (dt_month dt) @ ''-'' @ fmt_0d 2 (dt_day dt)"

definition strftime_minuto :: "datetime \<Rightarrow> string" where
  \<comment> \<open>\<open>dt.strftime("%Y-%m-%d %H:%M")\<close>\<close>
  "strftime_minuto dt =
     get_date_str dt @ '' '' @ fmt_0d 2 (dt_hour dt) @ '':'' @ fmt_0d 2 (dt_minute dt)"

subsection \<open>Publishing the calendar of a month\<close>

definition MESES_PT :: "int \<Rightarrow> string option" where
  "MESES_PT = map_of
     [(1, ''Janeiro''), (2, ''Fevereiro''), (3, ''Mar'' @ [CHR 0xE7] @ ''o''), (4, ''Abril''),
      (5, ''Maio''), (6, ''Junho''), (7, ''Julho''), (8, ''Agosto''), (9, ''Setembro''),
      (10, ''Outubro''), (11, ''Novembro''), (12, ''Dezembro'')]"

definition titulo_calendario :: "string \<Rightarrow> int \<Rightarrow> string" where
  "titulo_calendario nome_mes year =
     ''Calend'' @ [CHR 0xE1] @ ''rio de ponto - '' @ nome_mes @ ''/'' @ str_int year"

definition obter_canal :: "ambiente \<Rightarrow> 't mundo \<Rightarrow> (erro + unit) \<times> 't mundo" where
  \<comment> \<open>lines 164 to 166: \<open>get_channel\<close> reads the client's cache, \<open>fetch_channel\<close> asks
      the platform\<close>
  "obter_canal amb w =
     (if canal_em_cache amb then (Inr (), w)
      else (let w1 = registrar_evento (FetchChannel (calendar_channel_id amb)) w in
            case falha_fetch_channel amb of
              Some e \<Rightarrow> (Inl (Discord e), w1)
            | None \<Rightarrow> (Inr (), w1)))"

definition fetch_message :: "ambiente \<Rightarrow> int option \<Rightarrow> 't mundo \<Rightarrow> discord_error + int" where
  \<comment> \<open>the platform reports a message that is not in the channel as NotFound, and
      refuses an id that is no number\<close>
  "fetch_message amb message_id w =
     (case falha_fetch_message amb of
        Some e \<Rightarrow> Inl e
      | None \<Rightarrow>
          (case message_id of
             None \<Rightarrow> Inl HTTPException
           | Some i \<Rightarrow> if canal w i = None then Inl NotFound else Inr i))"

definition editar_mensagem ::
  "ambiente \<Rightarrow> int option \<Rightarrow> embed \<Rightarrow> 't mundo \<Rightarrow> (discord_error + unit) \<times> 't mundo" where
  \<comment> \<open>the body of the \<open>try\<close>, lines 177 and 178\<close>
  "editar_mensagem amb message_id emb w =
     (let w1 = registrar_evento (FetchMessage message_id) w in
      case fetch_message amb message_id w1 of
        Inl e \<Rightarrow> (Inl e, w1)
      | Inr i \<Rightarrow>
          (let w2 = registrar_evento (MessageEdit i emb) w1 in
           case falha_edit amb of
             Some e \<Rightarrow> (Inl e, w2)
           | None \<Rightarrow> (Inr (), w2\<lparr>canal := (canal w2)(i \<mapsto> emb)\<rparr>)))"

definition criar_mensagem ::
  "'t json \<Rightarrow> ambiente \<Rightarrow> dados \<Rightarrow> mensagens \<Rightarrow> string \<Rightarrow> embed \<Rightarrow> 't mundo
     \<Rightarrow> (erro + unit) \<times> 't mundo" where
  \<comment> \<open>lines 185 to 191\<close>
  "criar_mensagem J amb d msgs mk emb w =
     (let w1 = registrar_evento (ChannelSend emb) w in
      case falha_send amb of
        Some e \<Rightarrow> (Inl (Discord e), w1)
      | None \<Rightarrow>
          (let msg_id = proximo_id w1;
               w2 = w1\<lparr>canal := (canal w1)(msg_id \<mapsto> emb), proximo_id := msg_id + 1\<rparr>;
               msgs' = AList.update mk [(''message_id'', msg_id)] msgs
           in (Inr (), salvar_dados J (d\<lparr>mensagens := Some msgs'\<rparr>) w2)))"

definition atualizar_mensagem_calendario ::
  "'t json \<Rightarrow> ambiente \<Rightarrow> int \<Rightarrow> int \<Rightarrow> 't mundo \<Rightarrow> (erro + unit) \<times> 't mundo" where
  "atualizar_mensagem_calendario J amb year month w =
     (if calendar_channel_id amb = 0
      then (Inr (),
            registrar_evento
              (Print (''CALENDAR_CHANNEL_ID n'' @ [CHR 0xE3] @ ''o configurado no .env.'')) w)
      else
        (case carregar_dados J w of
           (Inl e, w1) \<Rightarrow> (Inl e, w1)
         | (Inr d, w1) \<Rightarrow>
             (let regs = (case registros d of None \<Rightarrow> [] | Some r \<Rightarrow> r);
                  msgs = (case mensagens d of None \<Rightarrow> [] | Some m \<Rightarrow> m);
                  mk = month_key year month
              in case obter_canal amb w1 of
                   (Inl e, w2) \<Rightarrow> (Inl e, w2)
                 | (Inr _, w2) \<Rightarrow>
                     (case renderizar_calendario year month regs of
                        Inl e \<Rightarrow> (Inl e, w2)
                      | Inr descricao \<Rightarrow>
                          (case MESES_PT month of
                             None \<Rightarrow> (Inl KeyError, w2)
                           | Some nome_mes \<Rightarrow>
                               (let emb = \<lparr>title = titulo_calendario nome_mes year,
                                           description = descricao\<rparr>
                                in case map_of msgs mk of
                                     None \<Rightarrow> criar_mensagem J amb d msgs mk emb w2
                                   | Some message_info \<Rightarrow>
                                       if message_info = []
                                       then criar_mensagem J amb d msgs mk emb w2
                                       else
                                         (case editar_mensagem amb
                                                 (map_of message_info ''message_id'') emb w2 of
                                            (Inr _, w3) \<Rightarrow> (Inr (), w3)
                                          | (Inl NotFound, w3) \<Rightarrow>
                                              criar_mensagem J amb d msgs mk emb w3
                                          | (Inl e, w3) \<Rightarrow> (Inl (Discord e), w3))))))))"

subsection \<open>The clock-event handler\<close>

record interaction =
  user_id :: int
  display_name :: string

definition registro_novo :: "string \<Rightarrow> info" where
  "registro_novo nome = [(''name'', nome), (''entrada'', ''--:--''), (''saida'', ''--:--'')]"

definition marcar_ponto ::
  "string \<Rightarrow> string \<Rightarrow> string \<Rightarrow> string \<Rightarrow> string \<Rightarrow> registros \<Rightarrow> registros" where
  \<comment> \<open>lines 222 to 236 on the dictionary \<open>registros\<close>; a subscript that is assigned
      through, \<open>r[k][...] = v\<close>, changes the entry of \<open>k\<close> in place\<close>
  "marcar_ponto date_str uid nome tipo hora_str regs =
     (let regs1 = (if map_of regs date_str = None then AList.update date_str [] regs else regs);
          regs2 = AList.map_entry date_str
                    (\<lambda>us. if map_of us uid = None then AList.update uid (registro_novo nome) us
                          else us) regs1
      in if tipo = ''entrada''
         then AList.map_entry date_str
                (AList.map_entry uid (AList.update ''entrada'' hora_str)) regs2
         else AList.map_entry date_str
                (AList.map_entry uid (AList.update ''saida'' hora_str)) regs2)"

definition msg_conf :: "string \<Rightarrow> string \<Rightarrow> string \<Rightarrow> string" where
  "msg_conf tipo nome hora_str =
     (if tipo = ''entrada''
      then ''Entrada registrada para '' @ nome @ '' '' @ [CHR 0xE0] @ ''s **''
             @ take 5 (drop 11 hora_str) @ ''**.''
      else ''Sa'' @ [CHR 0xED] @ ''da registrada para '' @ nome @ '' '' @ [CHR 0xE0] @ ''s **''
             @ take 5 (drop 11 hora_str) @ ''**.'')"

definition registrar_ponto_salvar ::
  "'t json \<Rightarrow> interaction \<Rightarrow> string \<Rightarrow> datetime \<Rightarrow> 't mundo \<Rightarrow> (erro + string) \<times> 't mundo" where
  \<comment> \<open>lines 212 to 239, with \<open>agora\<close> the value of \<open>datetime.now()\<close>: load, stamp, save\<close>
  "registrar_ponto_salvar J interaction tipo agora w =
     (let date_str = get_date_str agora;
          hora_str = strftime_minuto agora
      in case carregar_dados J w of
           (Inl e, w1) \<Rightarrow> (Inl e, w1)
         | (Inr d, w1) \<Rightarrow>
             (let regs = (case registros d of None \<Rightarrow> [] | Some r \<Rightarrow> r);
                  uid = str_int (user_id interaction);
                  nome = display_name interaction;
                  regs' = marcar_ponto date_str uid nome tipo hora_str regs
              in (Inr (msg_conf tipo nome hora_str),
                  salvar_dados J (d\<lparr>registros := Some regs'\<rparr>) w1)))"

definition registrar_ponto ::
  "'t json \<Rightarrow> ambiente \<Rightarrow> interaction \<Rightarrow> string \<Rightarrow> datetime \<Rightarrow> 't mundo
     \<Rightarrow> (erro + unit) \<times> 't mundo" where
  "registrar_ponto J amb interaction tipo agora w =
     (case registrar_ponto_salvar J interaction tipo agora w of
        (Inl e, w1) \<Rightarrow> (Inl e, w1)
      | (Inr conf, w1) \<Rightarrow>
          (case atualizar_mensagem_calendario J amb (dt_year agora) (dt_month agora) w1 of
             (Inl e, w2) \<Rightarrow> (Inl e, w2)
           | (Inr _, w2) \<Rightarrow> (Inr (), registrar_evento (ResponseSend conf) w2)))"

fun registrar_pontos ::
  "'t json \<Rightarrow> ambiente \<Rightarrow> (interaction \<times> string \<times> datetime) list \<Rightarrow> 't mundo \<Rightarrow> 't mundo" where
  \<comment> \<open>one invocation of the handler after the other\<close>
  "registrar_pontos J amb [] w = w"
| "registrar_pontos J amb ((interaction, tipo, agora) # rest) w =
     registrar_pontos J amb rest (snd (registrar_ponto J amb interaction tipo agora w))"

subsection \<open>Commands\<close>

record contexto =
  administrator :: bool

definition comando_atualizar_calendario ::
  "'t json \<Rightarrow> ambiente \<Rightarrow> contexto \<Rightarrow> datetime \<Rightarrow> int option \<Rightarrow> int option \<Rightarrow> 't mundo
     \<Rightarrow> (erro + unit) \<times> 't mundo" where
  \<comment> \<open>\<open>has_permissions(administrator=True)\<close> runs before the body\<close>
  "comando_atualizar_calendario J amb ctx agora ano mes w =
     (if \<not> administrator ctx then (Inl MissingPermissions, w)
      else
        (let ano1 = (case ano of None \<Rightarrow> dt_year agora | Some a \<Rightarrow> a);
             mes1 = (case mes of None \<Rightarrow> dt_month agora | Some m \<Rightarrow> m)
         in case atualizar_mensagem_calendario J amb ano1 mes1 w of
              (Inl e, w1) \<Rightarrow> (Inl e, w1)
            | (Inr _, w1) \<Rightarrow>
                (case MESES_PT mes1 of
                   None \<Rightarrow> (Inl KeyError, w1)
                 | Some nome_mes \<Rightarrow>
                     (Inr (),
                      registrar_evento
                        (CtxSend (''Calend'' @ [CHR 0xE1] @ ''rio de '' @ nome_mes @ ''/''
                                    @ str_int ano1 @ '' atualizado.'')) w1))))"

definition mes_invalido :: string where
  "mes_invalido =
     ''M'' @ [CHR 0xEA] @ ''s inv'' @ [CHR 0xE1] @ ''lido. Use um valor entre 1 e 12. Ex.: ''
       @ [CHR 0x60] @ ''!calendario 2024 5'' @ [CHR 0x60]"

definition comando_calendario ::
  "'t json \<Rightarrow> contexto \<Rightarrow> int \<Rightarrow> int \<Rightarrow> 't mundo \<Rightarrow> (erro + unit) \<times> 't mundo" where
  "comando_calendario J ctx ano mes w =
     (if mes < 1 \<or> mes > 12 then (Inr (), registrar_evento (CtxSend mes_invalido) w)
      else
        (case carregar_dados J w of
           (Inl e, w1) \<Rightarrow> (Inl e, w1)
         | (Inr d, w1) \<Rightarrow>
             (let regs = (case registros d of None \<Rightarrow> [] | Some r \<Rightarrow> r) in
              case renderizar_calendario ano mes regs of
                Inl e \<Rightarrow> (Inl e, w1)
              | Inr descricao \<Rightarrow>
                  (case MESES_PT mes of
                     None \<Rightarrow> (Inl KeyError, w1)
                   | Some nome_mes \<Rightarrow>
                       (Inr (),
                        registrar_evento
                          (CtxSendEmbed \<lparr>title = titulo_calendario nome_mes ano,
                                         description = descricao\<rparr>) w1)))))"

section \<open>Notions used to state the claims\<close>

definition codec_ok :: "'t json \<Rightarrow> bool" where
  \<comment> \<open>\<open>json.load\<close> reads back the document that \<open>json.dump\<close> wrote\<close>
  "codec_ok J = (\<forall>d. json_load J (json_dump J d) = Inr d)"

definition documento :: "'t json \<Rightarrow> 't mundo \<Rightarrow> erro + dados" where
  \<comment> \<open>the stored document: what \<open>carregar_dados\<close> returns\<close>
  "documento J w = fst (carregar_dados J w)"

definition registro_de :: "registros \<Rightarrow> string \<Rightarrow> string \<Rightarrow> info option" where
  \<comment> \<open>\<open>registros[date_str][uid]\<close>, when both keys are there\<close>
  "registro_de regs date_str uid =
     (case map_of regs date_str of None \<Rightarrow> None | Some us \<Rightarrow> map_of us uid)"

definition regs_de :: "dados \<Rightarrow> registros" where
  \<comment> \<open>\<open>dados.get("registros", {})\<close>\<close>
  "regs_de d = (case registros d of None \<Rightarrow> [] | Some r \<Rightarrow> r)"

definition msgs_de :: "dados \<Rightarrow> mensagens" where
  \<comment> \<open>\<open>dados.get("mensagens", {})\<close>\<close>
  "msgs_de d = (case mensagens d of None \<Rightarrow> [] | Some m \<Rightarrow> m)"

definition campo_de :: "string \<Rightarrow> string" where
  \<comment> \<open>the field that a click of kind \<open>tipo\<close> stamps\<close>
  "campo_de tipo = (if tipo = ''entrada'' then ''entrada'' else ''saida'')"

definition avisa :: "'t evento \<Rightarrow> bool" where
  \<comment> \<open>a confirmation to the acting user, or a line printed to the log\<close>
  "avisa ev = (case ev of ResponseSend _ \<Rightarrow> True | Print _ \<Rightarrow> True | _ \<Rightarrow> False)"

definition nome_de :: "string \<Rightarrow> info \<Rightarrow> string" where
  \<comment> \<open>the name that the renderer lists: \<open>info.get("name", str(user_id))\<close>\<close>
  "nome_de uid info = (case map_of info ''name'' of None \<Rightarrow> uid | Some n \<Rightarrow> n)"

definition fora_da_grade :: "string \<Rightarrow> bool" where
  \<comment> \<open>a line that cannot be the weekday header or a row of the grid: it is empty, or
      starts with a dash, an underscore or a star, or has no space, or has a bar\<close>
  "fora_da_grade l =
     (l = [] \<or> hd l \<in> set ''-_*'' \<or> CHR '' '' \<notin> set l \<or> CHR ''|'' \<in> set l)"

section \<open>Lemmas\<close>

subsection \<open>The month of the calendar and the records of a month\<close>

lemma monthdayscalendar_Inr:
  "1 \<le> month \<Longrightarrow> month \<le> 12 \<Longrightarrow>
   monthdayscalendar year month =
     Inr (chunks 7 (replicate (nat (weekday year month 1 mod 7)) 0 @ [1..days_in_month year month]
            @ replicate (nat ((0 - weekday year month 1 - days_in_month year month) mod 7)) 0))"
  by (simp add: monthdayscalendar_def itermonthdays_def monthrange_def)

lemma foldl_registros_mes_nenhum:
  "\<forall>k \<in> fst ` set regs. \<not> startswith k mk \<Longrightarrow>
   foldl (\<lambda>acc (data_str, us). if startswith data_str mk then AList.update data_str us acc else acc)
     acc regs = acc"
  by (induction regs arbitrary: acc) auto

lemma registros_mes_nenhum:
  "\<forall>k \<in> fst ` set regs. \<not> startswith k mk \<Longrightarrow> registros_mes mk regs = []"
  unfolding registros_mes_def by (rule foldl_registros_mes_nenhum)

lemma update_novo: "k \<notin> fst ` set al \<Longrightarrow> AList.update k v al = al @ [(k, v)]"
  by (induction al) auto

lemma foldl_registros_mes_distinct:
  "distinct (map fst (acc @ regs)) \<Longrightarrow>
   foldl (\<lambda>acc (data_str, us). if startswith data_str mk then AList.update data_str us acc else acc)
     acc regs = acc @ filter (\<lambda>(k, us). startswith k mk) regs"
proof (induction regs arbitrary: acc)
  case Nil
  then show ?case by simp
next
  case (Cons p regs)
  obtain k us where p: "p = (k, us)" by (cases p)
  show ?case
  proof (cases "startswith k mk")
    case True
    from Cons.prems p have "k \<notin> fst ` set acc" by auto
    then have u: "AList.update k us acc = acc @ [(k, us)]" by (rule update_novo)
    from Cons.prems p have "distinct (map fst ((acc @ [(k, us)]) @ regs))" by auto
    from Cons.IH [OF this] show ?thesis using True p u by simp
  next
    case False
    from Cons.prems p have "distinct (map fst (acc @ regs))" by auto
    from Cons.IH [OF this] show ?thesis using False p by simp
  qed
qed

lemma registros_mes_filter:
  "distinct (map fst regs) \<Longrightarrow>
   registros_mes mk regs = filter (\<lambda>(k, us). startswith k mk) regs"
  unfolding registros_mes_def using foldl_registros_mes_distinct [of "[]" regs mk] by simp

subsection \<open>Formatted numbers and stamped times\<close>

lemma split_sep_sem: "c \<notin> set s \<Longrightarrow> split_sep c s = [s]"
  by (induction s) auto

lemma split_sep_primeiro: "c \<notin> set a \<Longrightarrow> split_sep c (a @ c # b) = a # split_sep c b"
  by (induction a) auto

lemma of_char_digit_char: "d < 10 \<Longrightarrow> of_char (digit_char d) = 48 + d"
  by (simp add: digit_char_def)

lemma is_digit_digit_char: "d < 10 \<Longrightarrow> is_digit (digit_char d)"
  by (simp add: is_digit_def less_eq_char_def of_char_digit_char)

lemma is_digit_digits: "c \<in> set (digits n) \<Longrightarrow> is_digit c"
proof (induction n rule: digits.induct)
  case (1 n)
  then show ?case
    by (subst (asm) digits.simps) (auto simp: is_digit_digit_char split: if_splits)
qed

lemma is_digit_nao: "is_digit c \<Longrightarrow> c \<noteq> CHR '' '' \<and> c \<noteq> CHR 0x0A \<and> c \<noteq> CHR ''-'' \<and> c \<noteq> CHR ''|''"
  by (auto simp: is_digit_def less_eq_char_def)

lemma length_digits_1: "n < 10 \<Longrightarrow> length (digits n) = 1"
  by (subst digits.simps) simp

lemma length_digits_2: "10 \<le> n \<Longrightarrow> n < 100 \<Longrightarrow> length (digits n) = 2"
  by (subst digits.simps) (simp add: length_digits_1)

lemma fmt_0d_chars: "c \<in> set (fmt_0d w i) \<Longrightarrow> is_digit c \<or> c = CHR ''-''"
  by (auto simp: fmt_0d_def rjust_def is_digit_def less_eq_char_def dest: is_digit_digits split: if_splits)

lemma fmt_0d_sem_espaco: "CHR '' '' \<notin> set (fmt_0d w i)"
  using fmt_0d_chars [of "CHR '' ''" w i] is_digit_nao [of "CHR '' ''"] by auto

lemma str_int_sem_espaco: "CHR '' '' \<notin> set (str_int i)"
  using is_digit_digits is_digit_nao by (auto simp: str_int_def)

lemma length_fmt_0d_2: "0 \<le> i \<Longrightarrow> i \<le> 99 \<Longrightarrow> length (fmt_0d 2 i) = 2"
proof -
  assume a: "0 \<le> i" "i \<le> 99"
  show ?thesis
  proof (cases "nat i < 10")
    case True
    with a show ?thesis by (simp add: fmt_0d_def rjust_def length_digits_1)
  next
    case False
    with a have "10 \<le> nat i" "nat i < 100" by auto
    with a show ?thesis by (simp add: fmt_0d_def rjust_def length_digits_2)
  qed
qed

lemma so_hhmm_strftime:
  assumes "0 \<le> dt_hour dt" "dt_hour dt \<le> 99" "0 \<le> dt_minute dt" "dt_minute dt \<le> 99"
  shows "so_hhmm (strftime_minuto dt) = fmt_0d 2 (dt_hour dt) @ '':'' @ fmt_0d 2 (dt_minute dt)"
proof -
  define d where "d = get_date_str dt"
  define hm where "hm = fmt_0d 2 (dt_hour dt) @ '':'' @ fmt_0d 2 (dt_minute dt)"
  have s: "strftime_minuto dt = d @ CHR '' '' # hm" by (simp add: strftime_minuto_def d_def hm_def)
  have d: "CHR '' '' \<notin> set d"
    by (simp add: d_def get_date_str_def strftime_Y_def fmt_0d_sem_espaco str_int_sem_espaco)
  have hm: "CHR '' '' \<notin> set hm" by (simp add: hm_def fmt_0d_sem_espaco)
  have l: "length hm = 5" using assms by (simp add: hm_def length_fmt_0d_2)
  have sp: "split_sep (CHR '' '') (d @ CHR '' '' # hm) = [d, hm]"
    using split_sep_primeiro [OF d, of hm] split_sep_sem [OF hm] by simp
  have i: "CHR '' '' \<in> set (d @ CHR '' '' # hm)" by simp
  have "CHR '' '' \<notin> set ''--:--''" by simp
  with i have ne: "d @ CHR '' '' # hm \<noteq> ''--:--''" by metis
  have "so_hhmm (d @ CHR '' '' # hm) = hm"
    unfolding so_hhmm_def sp using ne i l by simp
  then show ?thesis unfolding s hm_def .
qed

subsection \<open>The listing of the records\<close>

lemma linhas_dias_Inr:
  "\<forall>k \<in> set ks. (\<exists>d. strptime_ymd k = Inr d) \<and> map_of rm k \<noteq> None \<Longrightarrow>
   \<exists>ls. linhas_dias month rm ks = Inr ls"
proof (induction ks)
  case Nil
  then show ?case by simp
next
  case (Cons k ks)
  then obtain ls where "linhas_dias month rm ks = Inr ls" by auto
  moreover from Cons.prems obtain y mo dia where "strptime_ymd k = Inr (y, mo, dia)"
    by (metis list.set_intros(1) prod_cases3)
  moreover from Cons.prems obtain us where "map_of rm k = Some us" by auto
  ultimately show ?case by simp
qed

lemma linhas_dias_contem:
  "linhas_dias month rm ks = Inr ls \<Longrightarrow> k \<in> set ks \<Longrightarrow> map_of rm k = Some us \<Longrightarrow>
   (uid, info) \<in> set us \<Longrightarrow> linha_usuario uid info \<in> set ls"
proof (induction ks arbitrary: ls)
  case Nil
  then show ?case by simp
next
  case (Cons a ks)
  from Cons.prems(1) obtain y mo dia us' ls' where
    a: "strptime_ymd a = Inr (y, mo, dia)" "map_of rm a = Some us'"
      "linhas_dias month rm ks = Inr ls'"
    and ls: "ls = titulo_dia dia month # map (\<lambda>(user_id, info). linha_usuario user_id info) us' @ ls'"
    by (auto split: sum.splits option.splits prod.splits)
  show ?case
  proof (cases "k = a")
    case True
    with a Cons.prems have "us' = us" by simp
    with Cons.prems(4) ls show ?thesis by force
  next
    case False
    with Cons.prems have "k \<in> set ks" by simp
    from Cons.IH [OF a(3) this Cons.prems(3) Cons.prems(4)] ls show ?thesis by simp
  qed
qed

lemma linha_usuario_so_entrada:
  assumes "map_of info ''entrada'' = Some (strftime_minuto agora)"
    and "0 \<le> dt_hour agora" "dt_hour agora \<le> 99" "0 \<le> dt_minute agora" "dt_minute agora \<le> 99"
    and "map_of info ''saida'' = None \<or> map_of info ''saida'' = Some ''--:--''"
  shows "linha_usuario uid info =
           ''- '' @ (case map_of info ''name'' of None \<Rightarrow> uid | Some n \<Rightarrow> n) @ '': entrada ''
             @ fmt_0d 2 (dt_hour agora) @ '':'' @ fmt_0d 2 (dt_minute agora)
             @ '' | sa'' @ [CHR 0xED] @ ''da --:--''"
proof -
  have "so_hhmm ''--:--'' = ''--:--''" by (simp add: so_hhmm_def)
  with assms so_hhmm_strftime [of agora] show ?thesis
    by (auto simp: linha_usuario_def)
qed

subsection \<open>The store\<close>

lemma carregar_dados_existe:
  "arquivo w = Some t \<Longrightarrow> carregar_dados J w = (json_load J t, registrar_evento FileRead w)"
  by (simp add: carregar_dados_def garantir_arquivo_def)

lemma arquivo_salvar_dados [simp]: "arquivo (salvar_dados J d w) = Some (json_dump J d)"
  by (simp add: salvar_dados_def registrar_evento_def)

lemma arquivo_registrar_evento [simp]: "arquivo (registrar_evento ev w) = arquivo w"
  by (simp add: registrar_evento_def)

lemma documento_arquivo:
  "documento J w =
     (case arquivo w of None \<Rightarrow> json_load J (json_dump J documento_vazio) | Some t \<Rightarrow> json_load J t)"
  by (simp add: documento_def carregar_dados_def garantir_arquivo_def split: option.splits)


subsection \<open>Stamping a record\<close>

lemma map_of_marcar_ponto_outra_data:
  "k \<noteq> date_str \<Longrightarrow> map_of (marcar_ponto date_str uid nome tipo hora_str regs) k = map_of regs k"
  by (simp add: marcar_ponto_def Let_def map_of_map_entry update_conv')

lemma map_of_marcar_ponto_data:
  "map_of (marcar_ponto date_str uid nome tipo hora_str regs) date_str =
     Some (AList.map_entry uid (AList.update (campo_de tipo) hora_str)
             (let us = (case map_of regs date_str of None \<Rightarrow> [] | Some us \<Rightarrow> us)
              in if map_of us uid = None then AList.update uid (registro_novo nome) us else us))"
  by (simp add: marcar_ponto_def Let_def map_of_map_entry update_conv' campo_de_def
      split: option.splits)

lemma registro_de_marcar_ponto_outro_usuario:
  "u \<noteq> uid \<Longrightarrow>
   registro_de (marcar_ponto date_str uid nome tipo hora_str regs) date_str u =
     registro_de regs date_str u"
  by (simp add: registro_de_def map_of_marcar_ponto_data Let_def map_of_map_entry update_conv'
      split: option.splits)

lemma registro_de_marcar_ponto:
  "registro_de (marcar_ponto date_str uid nome tipo hora_str regs) date_str uid =
     Some (AList.update (campo_de tipo) hora_str
             (case registro_de regs date_str uid of None \<Rightarrow> registro_novo nome | Some i \<Rightarrow> i))"
  by (simp add: registro_de_def map_of_marcar_ponto_data Let_def map_of_map_entry update_conv'
      split: option.splits)

subsection \<open>The publish, step by step\<close>

lemma trace_registrar_evento [simp]: "trace (registrar_evento ev w) = trace w @ [ev]"
  by (simp add: registrar_evento_def)

lemma canal_registrar_evento [simp]: "canal (registrar_evento ev w) = canal w"
  by (simp add: registrar_evento_def)

lemma proximo_id_registrar_evento [simp]: "proximo_id (registrar_evento ev w) = proximo_id w"
  by (simp add: registrar_evento_def)

lemma carregar_dados_Inr:
  "carregar_dados J w = (Inr d, w1) \<Longrightarrow>
   \<exists>t. arquivo w1 = Some t \<and> json_load J t = Inr d \<and> canal w1 = canal w \<and>
       proximo_id w1 = proximo_id w \<and>
       trace w1 = trace w @ (if arquivo w = None then [FileWrite (json_dump J documento_vazio)] else [])
                    @ [FileRead]"
  by (auto simp: carregar_dados_def garantir_arquivo_def Let_def split: option.splits if_splits)

lemma carregar_dados_codec:
  "codec_ok J \<Longrightarrow> arquivo w = Some (json_dump J d) \<Longrightarrow>
   carregar_dados J w = (Inr d, registrar_evento FileRead w)"
  by (simp add: carregar_dados_existe codec_ok_def)

lemma obter_canal_Inr:
  "obter_canal amb w = (Inr u, w') \<Longrightarrow>
   w' = w\<lparr>trace := trace w @ (if canal_em_cache amb then [] else [FetchChannel (calendar_channel_id amb)])\<rparr>
   \<and> (canal_em_cache amb \<or> falha_fetch_channel amb = None)"
  by (auto simp: obter_canal_def Let_def registrar_evento_def split: option.splits if_splits)

text \<open>The second of two publishes in a row, once the stored reference names a message
  of the channel that already shows the calendar.\<close>

lemma atualizar_de_novo:
  assumes "calendar_channel_id amb \<noteq> 0"
    and "falha_fetch_message amb = None" and "falha_edit amb = None"
    and "arquivo w = Some t" and "json_load J t = Inr d"
    and "canal_em_cache amb \<or> falha_fetch_channel amb = None"
    and "renderizar_calendario year month (regs_de d) = Inr descricao"
    and "MESES_PT month = Some nome_mes"
    and "map_of (msgs_de d) (month_key year month) = Some message_info"
    and "message_info \<noteq> []"
    and "map_of message_info ''message_id'' = Some i"
    and "canal w i = Some \<lparr>title = titulo_calendario nome_mes year, description = descricao\<rparr>"
  shows "atualizar_mensagem_calendario J amb year month w =
           (Inr (),
            w\<lparr>trace := trace w @ FileRead
                 # (if canal_em_cache amb then [] else [FetchChannel (calendar_channel_id amb)])
                 @ [FetchMessage (Some i),
                    MessageEdit i \<lparr>title = titulo_calendario nome_mes year, description = descricao\<rparr>]\<rparr>)"
proof -
  let ?emb = "\<lparr>title = titulo_calendario nome_mes year, description = descricao\<rparr>"
  let ?ch = "if canal_em_cache amb then [] else [FetchChannel (calendar_channel_id amb)]"
  let ?w1 = "registrar_evento FileRead w"
  let ?w2 = "?w1\<lparr>trace := trace ?w1 @ ?ch\<rparr>"
  have c: "carregar_dados J w = (Inr d, ?w1)"
    using assms(4,5) by (simp add: carregar_dados_existe)
  have o: "obter_canal amb ?w1 = (Inr (), ?w2)"
    using assms(6) by (auto simp: obter_canal_def registrar_evento_def)
  have f: "fetch_message amb (Some i) (registrar_evento (FetchMessage (Some i)) ?w2) = Inr i"
    using assms(2,12) by (simp add: fetch_message_def registrar_evento_def)
  have e: "editar_mensagem amb (Some i) ?emb ?w2 =
             (Inr (), w\<lparr>trace := trace w @ FileRead # ?ch @ [FetchMessage (Some i), MessageEdit i ?emb]\<rparr>)"
    unfolding editar_mensagem_def Let_def f using assms(3,12)
    by (simp add: registrar_evento_def fun_upd_idem)
  show ?thesis
    unfolding atualizar_mensagem_calendario_def Let_def c
    using assms(1,7,8,9,10,11) o e
    by (simp add: regs_de_def msgs_de_def)
qed

lemma criar_mensagem_Inr:
  assumes "criar_mensagem J amb d msgs mk emb w = (Inr u, w')" and "codec_ok J"
  shows "\<exists>d'. arquivo w' = Some (json_dump J d') \<and> json_load J (json_dump J d') = Inr d' \<and>
              registros d' = registros d \<and>
              msgs_de d' = AList.update mk [(''message_id'', proximo_id w)] msgs \<and>
              canal w' = (canal w)(proximo_id w \<mapsto> emb) \<and>
              proximo_id w' = proximo_id w + 1 \<and>
              trace w' = trace w @ [ChannelSend emb, FileWrite (json_dump J d')]"
  using assms
  by (auto simp: criar_mensagem_def Let_def salvar_dados_def registrar_evento_def msgs_de_def
      codec_ok_def split: option.splits)

lemma editar_mensagem_Inr:
  assumes "editar_mensagem amb message_id emb w = (Inr u, w')"
  shows "\<exists>i. message_id = Some i \<and> canal w i \<noteq> None \<and> arquivo w' = arquivo w \<and>
             canal w' = (canal w)(i \<mapsto> emb) \<and> proximo_id w' = proximo_id w \<and>
             trace w' = trace w @ [FetchMessage message_id, MessageEdit i emb]"
  using assms
  by (auto simp: editar_mensagem_def Let_def fetch_message_def registrar_evento_def
      split: option.splits sum.splits if_splits)

lemma editar_mensagem_Inl:
  assumes "editar_mensagem amb message_id emb w = (Inl e, w')"
  shows "arquivo w' = arquivo w \<and> canal w' = canal w \<and> proximo_id w' = proximo_id w \<and>
         (\<exists>evs. trace w' = trace w @ FetchMessage message_id # evs \<and>
                (evs = [] \<or> (\<exists>i. evs = [MessageEdit i emb])))"
  using assms
  by (auto simp: editar_mensagem_def Let_def fetch_message_def registrar_evento_def
      split: option.splits sum.splits if_splits)

lemma atualizar_Inr_inv:
  assumes "calendar_channel_id amb \<noteq> 0"
    and "atualizar_mensagem_calendario J amb year month w = (Inr u, w1)"
  shows "\<exists>d wa wb descricao nome_mes.
           carregar_dados J w = (Inr d, wa) \<and> obter_canal amb wa = (Inr (), wb) \<and>
           renderizar_calendario year month (regs_de d) = Inr descricao \<and>
           MESES_PT month = Some nome_mes \<and>
           ((\<exists>mi. map_of (msgs_de d) (month_key year month) = Some mi \<and> mi \<noteq> [] \<and>
                  editar_mensagem amb (map_of mi ''message_id'')
                    \<lparr>title = titulo_calendario nome_mes year, description = descricao\<rparr> wb
                    = (Inr (), w1))
            \<or> (\<exists>wc. (wc = wb \<or>
                       (\<exists>mi. map_of (msgs_de d) (month_key year month) = Some mi \<and> mi \<noteq> [] \<and>
                          editar_mensagem amb (map_of mi ''message_id'')
                            \<lparr>title = titulo_calendario nome_mes year, description = descricao\<rparr> wb
                            = (Inl NotFound, wc))) \<and>
                     criar_mensagem J amb d (msgs_de d) (month_key year month)
                       \<lparr>title = titulo_calendario nome_mes year, description = descricao\<rparr> wc
                       = (Inr (), w1)))"
  using assms
  unfolding atualizar_mensagem_calendario_def Let_def regs_de_def [symmetric] msgs_de_def [symmetric]
  by (auto split: prod.splits sum.splits option.splits if_splits discord_error.splits)

lemma regs_de_registros: "registros d' = registros d \<Longrightarrow> regs_de d' = regs_de d"
  by (simp add: regs_de_def)

lemma obter_canal_casos:
  "obter_canal amb w = (r, w') \<Longrightarrow>
   arquivo w' = arquivo w \<and>
   (\<exists>evs. trace w' = trace w @ evs \<and> (\<forall>ev \<in> set evs. \<not> avisa ev))"
  by (auto simp: obter_canal_def Let_def registrar_evento_def avisa_def split: option.splits if_splits)

lemma editar_mensagem_casos:
  "editar_mensagem amb message_id emb w = (r, w') \<Longrightarrow>
   arquivo w' = arquivo w \<and>
   (\<exists>evs. trace w' = trace w @ evs \<and> (\<forall>ev \<in> set evs. \<not> avisa ev))"
  by (auto simp: editar_mensagem_def Let_def registrar_evento_def avisa_def
      split: option.splits sum.splits if_splits)

lemma criar_mensagem_casos:
  "criar_mensagem J amb d msgs mk emb w = (r, w') \<Longrightarrow>
   (\<exists>evs. trace w' = trace w @ evs \<and> (\<forall>ev \<in> set evs. \<not> avisa ev)) \<and>
   ((\<exists>e. r = Inl e) \<and> arquivo w' = arquivo w \<or>
    r = Inr () \<and> (\<exists>msgs'. arquivo w' = Some (json_dump J (d\<lparr>mensagens := Some msgs'\<rparr>))))"
  by (auto simp: criar_mensagem_def Let_def registrar_evento_def salvar_dados_def avisa_def
      split: option.splits sum.splits if_splits)

lemma carregar_dados_casos:
  "carregar_dados J w = (r, w') \<Longrightarrow>
   (\<exists>evs. trace w' = trace w @ evs \<and> (\<forall>ev \<in> set evs. \<not> avisa ev))"
  by (auto simp: carregar_dados_def garantir_arquivo_def Let_def registrar_evento_def avisa_def
      split: option.splits sum.splits if_splits)

lemma atualizar_casos:
  assumes c: "carregar_dados J w = (Inr d, wa)"
    and n0: "calendar_channel_id amb \<noteq> 0"
    and a: "atualizar_mensagem_calendario J amb year month w = (r, w')"
  shows "(\<exists>evs. trace w' = trace w @ evs \<and> (\<forall>ev \<in> set evs. \<not> avisa ev)) \<and>
         ((\<exists>e. r = Inl e) \<and> arquivo w' = arquivo wa \<or>
          r = Inr () \<and> (arquivo w' = arquivo wa \<or>
                        (\<exists>msgs'. arquivo w' = Some (json_dump J (d\<lparr>mensagens := Some msgs'\<rparr>)))))"
proof -
  define P where "P = (\<lambda>(v :: 'a mundo) (v' :: 'a mundo).
     \<exists>evs. trace v' = trace v @ evs \<and> (\<forall>ev \<in> set evs. \<not> avisa ev))"
  have Ptrans: "\<And>u v x. P u v \<Longrightarrow> P v x \<Longrightarrow> P u x"
    unfolding P_def by (metis Un_iff append.assoc set_append)
  from carregar_dados_casos [OF c] have 0: "P w wa" unfolding P_def .
  obtain r1 wb where o: "obter_canal amb wa = (r1, wb)" by force
  from obter_canal_casos [OF o] have wb: "arquivo wb = arquivo wa" "P wa wb"
    unfolding P_def by auto
  have Pwb: "P w wb" using 0 wb(2) by (rule Ptrans)
  define G where "G = (\<lambda>(r :: erro + unit) (w' :: 'a mundo). P w w' \<and>
         ((\<exists>e. r = Inl e) \<and> arquivo w' = arquivo wa \<or>
          r = Inr () \<and> (arquivo w' = arquivo wa \<or>
                        (\<exists>msgs'. arquivo w' = Some (json_dump J (d\<lparr>mensagens := Some msgs'\<rparr>))))))"
  have criar: "G r2 w2" if "criar_mensagem J amb d msgs mk emb wc = (r2, w2)"
    "P w wc" "arquivo wc = arquivo wa" for msgs mk emb wc r2 w2
  proof -
    from criar_mensagem_casos [OF that(1)] have
      1: "P wc w2" and 2: "(\<exists>e. r2 = Inl e) \<and> arquivo w2 = arquivo wc \<or>
        r2 = Inr () \<and> (\<exists>msgs'. arquivo w2 = Some (json_dump J (d\<lparr>mensagens := Some msgs'\<rparr>)))"
      unfolding P_def by auto
    from Ptrans [OF that(2) 1] 2 that(3) show ?thesis unfolding G_def by auto
  qed
  have falha: "G (Inl e) wb" for e using Pwb wb(1) unfolding G_def by simp
  let ?regs = "case registros d of None \<Rightarrow> [] | Some r \<Rightarrow> r"
  let ?msgs = "case mensagens d of None \<Rightarrow> [] | Some m \<Rightarrow> m"
  have "G r w'"
  proof (cases r1)
    case (Inl e)
    with a n0 c o have "r = Inl e" "w' = wb"
      by (simp_all add: atualizar_mensagem_calendario_def)
    with falha show ?thesis by simp
  next
    case r1: (Inr u)
    show ?thesis
    proof (cases "renderizar_calendario year month ?regs")
      case (Inl e)
      with a n0 c o r1 have "r = Inl e" "w' = wb"
        by (simp_all add: atualizar_mensagem_calendario_def)
      with falha show ?thesis by simp
    next
      case rd: (Inr descricao)
      show ?thesis
      proof (cases "MESES_PT month")
        case None
        with a n0 c o r1 rd have "r = Inl KeyError" "w' = wb"
          by (simp_all add: atualizar_mensagem_calendario_def)
        with falha show ?thesis by simp
      next
        case (Some nome_mes)
        let ?emb = "\<lparr>title = titulo_calendario nome_mes year, description = descricao\<rparr>"
        let ?criar = "criar_mensagem J amb d ?msgs (month_key year month) ?emb"
        have eq: "(r, w') =
          (case map_of ?msgs (month_key year month) of
             None \<Rightarrow> ?criar wb
           | Some message_info \<Rightarrow>
               if message_info = [] then ?criar wb
               else (case editar_mensagem amb (map_of message_info ''message_id'') ?emb wb of
                       (Inr _, w3) \<Rightarrow> (Inr (), w3)
                     | (Inl NotFound, w3) \<Rightarrow> ?criar w3
                     | (Inl e, w3) \<Rightarrow> (Inl (Discord e), w3)))"
          using a n0 c o r1 rd Some
          by (simp add: atualizar_mensagem_calendario_def Let_def)
        show ?thesis
        proof (cases "map_of ?msgs (month_key year month)")
          case None
          with eq have "?criar wb = (r, w')" by simp
          from criar [OF this Pwb wb(1)] show ?thesis .
        next
          case mi: (Some message_info)
          show ?thesis
          proof (cases "message_info = []")
            case True
            with eq mi have "?criar wb = (r, w')" by simp
            from criar [OF this Pwb wb(1)] show ?thesis .
          next
            case False
            obtain r2 wc where
              e: "editar_mensagem amb (map_of message_info ''message_id'') ?emb wb = (r2, wc)"
              by force
            from editar_mensagem_casos [OF e] have "P wb wc" and awc: "arquivo wc = arquivo wb"
              unfolding P_def by auto
            with Pwb have Pwc: "P w wc" using Ptrans by blast
            show ?thesis
            proof (cases r2)
              case (Inr u2)
              with eq mi False e have "r = Inr ()" "w' = wc" by simp_all
              with Pwc awc wb(1) show ?thesis unfolding G_def by simp
            next
              case (Inl e2)
              show ?thesis
              proof (cases "e2 = NotFound")
                case True
                with eq mi False e Inl have "?criar wc = (r, w')" by simp
                from criar [OF this Pwc] awc wb(1) show ?thesis by simp
              next
                case nf: False
                with eq mi False e Inl have "r = Inl (Discord e2)" "w' = wc"
                  by (cases e2; simp)+
                with Pwc awc wb(1) show ?thesis unfolding G_def by simp
              qed
            qed
          qed
        qed
      qed
    qed
  qed
  then show ?thesis unfolding G_def P_def .
qed

subsection \<open>The stored document across the publish and the handler\<close>

lemma documento_codec:
  "codec_ok J \<Longrightarrow> arquivo w = Some (json_dump J d) \<Longrightarrow> documento J w = Inr d"
  by (simp add: documento_arquivo codec_ok_def)

lemma atualizar_documento:
  assumes J: "codec_ok J" and f: "arquivo w = Some (json_dump J d)"
    and a: "atualizar_mensagem_calendario J amb year month w = (r, w')"
  shows "\<exists>d'. arquivo w' = Some (json_dump J d') \<and> registros d' = registros d \<and>
              ((\<exists>e. r = Inl e) \<longrightarrow>
                 d' = d \<and> (\<exists>evs. trace w' = trace w @ evs \<and> (\<forall>ev \<in> set evs. \<not> avisa ev)))"
proof (cases "calendar_channel_id amb = 0")
  case True
  with a have "r = Inr ()" "w' = registrar_evento (Print (''CALENDAR_CHANNEL_ID n'' @ [CHR 0xE3] @ ''o configurado no .env.'')) w"
    by (simp_all add: atualizar_mensagem_calendario_def)
  with f show ?thesis by (intro exI [of _ d]) simp
next
  case False
  from carregar_dados_codec [OF J f] have c: "carregar_dados J w = (Inr d, registrar_evento FileRead w)" .
  have fa: "arquivo (registrar_evento FileRead w) = Some (json_dump J d)" using f by simp
  from atualizar_casos [OF c False a] obtain evs where
    t: "trace w' = trace w @ evs" "\<forall>ev \<in> set evs. \<not> avisa ev"
    and k: "(\<exists>e. r = Inl e) \<and> arquivo w' = Some (json_dump J d) \<or>
            r = Inr () \<and> (arquivo w' = Some (json_dump J d) \<or>
              (\<exists>msgs'. arquivo w' = Some (json_dump J (d\<lparr>mensagens := Some msgs'\<rparr>))))"
    unfolding fa by blast
  from k consider (mesmo) "arquivo w' = Some (json_dump J d)"
    | (novo) msgs' where "r = Inr ()" "arquivo w' = Some (json_dump J (d\<lparr>mensagens := Some msgs'\<rparr>))"
    by blast
  then show ?thesis
  proof cases
    case mesmo
    with t show ?thesis by (intro exI [of _ d]) blast
  next
    case novo
    then show ?thesis by (intro exI [of _ "d\<lparr>mensagens := Some msgs'\<rparr>"]) simp
  qed
qed

lemma registrar_ponto_documento:
  assumes J: "codec_ok J" and c: "carregar_dados J w = (Inr d, wa)"
    and h: "registrar_ponto J amb interaction tipo agora w = (r, w')"
  shows "\<exists>d'. arquivo w' = Some (json_dump J d') \<and>
              registros d' = Some (marcar_ponto (get_date_str agora) (str_int (user_id interaction))
                                     (display_name interaction) tipo (strftime_minuto agora)
                                     (regs_de d)) \<and>
              ((\<exists>e. r = Inl e) \<longrightarrow>
                 d' = d\<lparr>registros := Some (marcar_ponto (get_date_str agora)
                         (str_int (user_id interaction)) (display_name interaction) tipo
                         (strftime_minuto agora) (regs_de d))\<rparr> \<and>
                 (\<exists>evs. trace w' = trace w @ evs \<and> (\<forall>ev \<in> set evs. \<not> avisa ev)))"
proof -
  let ?regs' = "marcar_ponto (get_date_str agora) (str_int (user_id interaction))
                  (display_name interaction) tipo (strftime_minuto agora) (regs_de d)"
  let ?d1 = "d\<lparr>registros := Some ?regs'\<rparr>"
  let ?w1 = "salvar_dados J ?d1 wa"
  have s: "registrar_ponto_salvar J interaction tipo agora w =
             (Inr (msg_conf tipo (display_name interaction) (strftime_minuto agora)), ?w1)"
    using c by (simp add: registrar_ponto_salvar_def Let_def regs_de_def)
  obtain r2 w2 where
    a: "atualizar_mensagem_calendario J amb (dt_year agora) (dt_month agora) ?w1 = (r2, w2)"
    by force
  have f: "arquivo ?w1 = Some (json_dump J ?d1)" by simp
  from carregar_dados_casos [OF c] obtain e0 where
    e0: "trace wa = trace w @ e0" "\<forall>ev \<in> set e0. \<not> avisa ev" by blast
  have t1: "trace ?w1 = trace w @ (e0 @ [FileWrite (json_dump J ?d1)])"
    using e0 by (simp add: salvar_dados_def)
  from atualizar_documento [OF J f a] obtain d' where
    d0: "arquivo w2 = Some (json_dump J d') \<and> registros d' = registros ?d1 \<and>
      ((\<exists>e. r2 = Inl e) \<longrightarrow>
         d' = ?d1 \<and> (\<exists>evs. trace w2 = trace ?w1 @ evs \<and> (\<forall>ev \<in> set evs. \<not> avisa ev)))" ..
  note d' = conjunct1 [OF d0] conjunct1 [OF conjunct2 [OF d0]] conjunct2 [OF conjunct2 [OF d0]]
  show ?thesis
  proof (cases r2)
    case (Inl e)
    with h s a have "r = Inl e" "w' = w2" by (simp_all add: registrar_ponto_def)
    moreover from d'(3) Inl obtain evs where
      evs: "d' = ?d1" "trace w2 = trace ?w1 @ evs" "\<forall>ev \<in> set evs. \<not> avisa ev" by blast
    have na: "\<not> avisa (FileWrite (json_dump J ?d1))" by (simp add: avisa_def)
    have "trace w2 = trace w @ (e0 @ [FileWrite (json_dump J ?d1)] @ evs)"
      using t1 evs(2) by simp
    moreover have "\<forall>ev \<in> set (e0 @ [FileWrite (json_dump J ?d1)] @ evs). \<not> avisa ev"
      using e0(2) evs(3) na by auto
    ultimately have "\<exists>evs. trace w' = trace w @ evs \<and> (\<forall>ev \<in> set evs. \<not> avisa ev)"
      by blast
    with evs(1) d'(1,2) \<open>w' = w2\<close> show ?thesis by (intro exI [of _ d']) simp
  next
    case (Inr u)
    with h s a have "r = Inr ()"
      "w' = registrar_evento
              (ResponseSend (msg_conf tipo (display_name interaction) (strftime_minuto agora))) w2"
      by (simp_all add: registrar_ponto_def)
    with d'(1,2) show ?thesis by (intro exI [of _ d']) simp
  qed
qed

lemma marcar_ponto_alice:
  "marcar_ponto ''2025-11-28'' ''1'' ''alice'' ''entrada'' ''2025-11-28 09:00'' [] =
     [(''2025-11-28'',
       [(''1'', [(''name'', ''alice''), (''entrada'', ''2025-11-28 09:00''), (''saida'', ''--:--'')])])]"
  by (simp add: marcar_ponto_def registro_novo_def)

lemma renderizar_vazio_Inr:
  "1 \<le> month \<Longrightarrow> month \<le> 12 \<Longrightarrow> \<exists>descricao. renderizar_calendario year month [] = Inr descricao"
  using monthdayscalendar_Inr [of month year]
  by (simp add: renderizar_calendario_def linhas_calendario_def registros_mes_def)

lemma registrar_ponto_passo:
  assumes J: "codec_ok J" and d: "documento J w = Inr d"
  shows "\<exists>d'. documento J (snd (registrar_ponto J amb interaction tipo agora w)) = Inr d' \<and>
              regs_de d' = marcar_ponto (get_date_str agora) (str_int (user_id interaction))
                             (display_name interaction) tipo (strftime_minuto agora) (regs_de d)"
proof -
  from d obtain wa where c: "carregar_dados J w = (Inr d, wa)"
    unfolding documento_def by (metis prod.collapse)
  obtain r w' where h: "registrar_ponto J amb interaction tipo agora w = (r, w')" by force
  from registrar_ponto_documento [OF J c h] obtain d' where
    "arquivo w' = Some (json_dump J d')"
    "registros d' = Some (marcar_ponto (get_date_str agora) (str_int (user_id interaction))
                            (display_name interaction) tipo (strftime_minuto agora) (regs_de d))"
    by (elim exE conjE)
  then show ?thesis
    using h documento_codec [OF J] by (intro exI [of _ d']) (simp add: regs_de_def)
qed

lemma nome_marcar_ponto:
  "\<exists>info. registro_de (marcar_ponto date_str uid nome tipo hora_str regs) date_str uid = Some info \<and>
          map_of info ''name'' =
            (case registro_de regs date_str uid of
               None \<Rightarrow> Some nome
             | Some i0 \<Rightarrow> map_of i0 ''name'')"
  by (simp add: registro_de_marcar_ponto update_conv' campo_de_def registro_novo_def
      split: option.splits)

lemma registrar_pontos_nome:
  assumes J: "codec_ok J"
  shows "documento J w = Inr d \<Longrightarrow>
         registro_de (regs_de d) date_str (str_int u) = Some i0 \<Longrightarrow>
         \<forall>ev \<in> set evs. user_id (fst ev) = u \<and> get_date_str (snd (snd ev)) = date_str \<Longrightarrow>
         \<exists>d' info. documento J (registrar_pontos J amb evs w) = Inr d' \<and>
           registro_de (regs_de d') date_str (str_int u) = Some info \<and>
           map_of info ''name'' = map_of i0 ''name''"
proof (induction evs arbitrary: w d i0)
  case Nil
  then show ?case by simp
next
  case (Cons ev evs)
  obtain interaction tipo agora where ev: "ev = (interaction, tipo, agora)" by (cases ev)
  with Cons.prems(3) have same: "user_id interaction = u" "get_date_str agora = date_str"
    and rest: "\<forall>ev \<in> set evs. user_id (fst ev) = u \<and> get_date_str (snd (snd ev)) = date_str"
    by auto
  let ?w1 = "snd (registrar_ponto J amb interaction tipo agora w)"
  from registrar_ponto_passo [OF J Cons.prems(1)] obtain d1 where
    d1: "documento J ?w1 = Inr d1"
      "regs_de d1 = marcar_ponto (get_date_str agora) (str_int (user_id interaction))
                      (display_name interaction) tipo (strftime_minuto agora) (regs_de d)"
    by blast
  from nome_marcar_ponto [of date_str "str_int u" "display_name interaction" tipo
      "strftime_minuto agora" "regs_de d"] Cons.prems(2) obtain i1 where
    i1: "registro_de (regs_de d1) date_str (str_int u) = Some i1"
      "map_of i1 ''name'' = map_of i0 ''name''"
    unfolding d1(2) same by auto
  from Cons.IH [OF d1(1) i1(1) rest] i1(2) show ?case by (simp add: ev)
qed

lemma registrar_ponto_sem_canal:
  assumes "calendar_channel_id amb = 0" and "carregar_dados J w = (Inr d, wa)"
  shows "arquivo (snd (registrar_ponto J amb interaction tipo agora w)) =
           Some (json_dump J (d\<lparr>registros := Some (marcar_ponto (get_date_str agora)
                   (str_int (user_id interaction)) (display_name interaction) tipo
                   (strftime_minuto agora) (regs_de d))\<rparr>))"
  using assms
  by (simp add: registrar_ponto_def registrar_ponto_salvar_def Let_def regs_de_def
      atualizar_mensagem_calendario_def)

lemma marcar_ponto_bob:
  "marcar_ponto ''2025-11-28'' ''1'' ''bob'' ''saida'' ''2025-11-28 18:00''
     [(''2025-11-28'',
       [(''1'', [(''name'', ''alice''), (''entrada'', ''2025-11-28 09:00''), (''saida'', ''--:--'')])])] =
     [(''2025-11-28'',
       [(''1'', [(''name'', ''alice''), (''entrada'', ''2025-11-28 09:00''),
                 (''saida'', ''2025-11-28 18:00'')])])]"
  by (simp add: marcar_ponto_def registro_novo_def)

subsection \<open>The month check of the commands\<close>

lemma comando_calendario_mes_invalido:
  "mes < 1 \<or> mes > 12 \<Longrightarrow>
   comando_calendario J ctx ano mes w = (Inr (), w\<lparr>trace := trace w @ [CtxSend mes_invalido]\<rparr>)"
  by (simp add: comando_calendario_def registrar_evento_def)

lemma renderizar_mes_invalido:
  "month < 1 \<or> month > 12 \<Longrightarrow> renderizar_calendario year month regs = Inl IllegalMonthError"
  by (auto simp: renderizar_calendario_def linhas_calendario_def monthdayscalendar_def
      itermonthdays_def monthrange_def)

subsection \<open>The lines of the rendered text\<close>

lemma split_sep_nao_vazio [simp]: "split_sep c s \<noteq> []"
  by (induction s) (auto split: list.splits)

lemma split_sep_append_sep:
  "split_sep c (x @ c # s) = split_sep c x @ split_sep c s"
proof (induction x)
  case Nil
  then show ?case by simp
next
  case (Cons a x)
  obtain w ws where r: "split_sep c x = w # ws" by (cases "split_sep c x") auto
  with Cons show ?case by simp
qed

lemma split_sep_join:
  "xs \<noteq> [] \<Longrightarrow> split_sep c (join [c] xs) = concat (map (split_sep c) xs)"
proof (induction "[c]" xs rule: join.induct)
  case 1
  then show ?case by simp
next
  case (2 x)
  then show ?case by simp
next
  case (3 x y ys)
  then show ?case by (simp add: split_sep_append_sep)
qed

lemma split_sep_sem_prefixo:
  "c \<notin> set a \<Longrightarrow> split_sep c (a @ s) = (a @ hd (split_sep c s)) # tl (split_sep c s)"
proof (induction a)
  case Nil
  then show ?case by simp
next
  case (Cons x a)
  then show ?case by (auto split: list.splits)
qed

lemma split_sep_elem_sem_sep: "l \<in> set (split_sep c s) \<Longrightarrow> c \<notin> set l"
proof (induction s arbitrary: l)
  case Nil
  then show ?case by simp
next
  case (Cons x s)
  obtain w ws where r: "split_sep c s = w # ws" by (cases "split_sep c s") auto
  with Cons show ?case by (auto split: if_splits)
qed

lemma split_sep_elem_subset: "l \<in> set (split_sep c s) \<Longrightarrow> set l \<subseteq> set s"
proof (induction s arbitrary: l)
  case Nil
  then show ?case by simp
next
  case (Cons x s)
  obtain w ws where r: "split_sep c s = w # ws" by (cases "split_sep c s") auto
  then have w: "set w \<subseteq> set s" and ws: "\<And>l. l \<in> set ws \<Longrightarrow> set l \<subseteq> set s"
    using Cons.IH by auto
  from Cons.prems r have "l = [] \<or> l = x # w \<or> l \<in> set ws \<or> l = w"
    by (auto split: if_splits)
  with w ws show ?case by auto
qed

lemma split_sep_length: "c \<in> set s \<Longrightarrow> 1 < length (split_sep c s)"
proof (induction s)
  case Nil
  then show ?case by simp
next
  case (Cons x s)
  obtain w ws where r: "split_sep c s = w # ws" by (cases "split_sep c s") auto
  with Cons show ?case by (auto split: if_splits)
qed

lemma so_hhmm_sem_espaco: "CHR '' '' \<notin> set (so_hhmm t)"
proof (cases "t \<noteq> ''--:--'' \<and> CHR '' '' \<in> set t")
  case True
  then have "split_sep (CHR '' '') t ! 1 \<in> set (split_sep (CHR '' '') t)"
    using split_sep_length [of "CHR '' ''" t] by simp
  then have "CHR '' '' \<notin> set (split_sep (CHR '' '') t ! 1)"
    by (rule split_sep_elem_sem_sep)
  with True show ?thesis by (auto simp: so_hhmm_def dest: in_set_takeD)
next
  case False
  then show ?thesis by (auto simp: so_hhmm_def)
qed

lemma fora_da_grade_cons:
  assumes "x \<noteq> CHR '' ''"
    and "\<forall>l \<in> set (split_sep (CHR 0x0A) s). CHR '' '' \<notin> set l \<or> CHR ''|'' \<in> set l"
  shows "\<forall>l \<in> set (split_sep (CHR 0x0A) (x # s)). CHR '' '' \<notin> set l \<or> CHR ''|'' \<in> set l"
proof -
  obtain w ws where r: "split_sep (CHR 0x0A) s = w # ws"
    by (cases "split_sep (CHR 0x0A) s") auto
  with assms show ?thesis by (auto split: if_splits)
qed

lemma fora_da_grade_append:
  assumes "CHR '' '' \<notin> set e"
    and "\<forall>l \<in> set (split_sep (CHR 0x0A) s). CHR '' '' \<notin> set l \<or> CHR ''|'' \<in> set l"
  shows "\<forall>l \<in> set (split_sep (CHR 0x0A) (e @ s)). CHR '' '' \<notin> set l \<or> CHR ''|'' \<in> set l"
  using assms(1)
proof (induction e)
  case Nil
  with assms(2) show ?case by simp
next
  case (Cons x e)
  then have "x \<noteq> CHR '' ''" and
    "\<forall>l \<in> set (split_sep (CHR 0x0A) (e @ s)). CHR '' '' \<notin> set l \<or> CHR ''|'' \<in> set l"
    by auto
  from fora_da_grade_cons [OF this] show ?case by simp
qed

lemma linha_usuario_partes:
  "linha_usuario uid info =
     (''- '' @ nome_de uid info @ '': entrada '')
       @ so_hhmm (case map_of info ''entrada'' of None \<Rightarrow> ''--:--'' | Some e \<Rightarrow> e)
       @ ('' | sa'' @ [CHR 0xED] @ ''da '')
       @ so_hhmm (case map_of info ''saida'' of None \<Rightarrow> ''--:--'' | Some x \<Rightarrow> x)"
  by (simp add: linha_usuario_def nome_de_def Let_def)

lemma linha_usuario_fora_da_grade:
  assumes "CHR 0x0A \<notin> set (nome_de uid info)"
  shows "\<forall>l \<in> set (split_sep (CHR 0x0A) (linha_usuario uid info)). fora_da_grade l"
proof -
  define A where "A = ''- '' @ nome_de uid info @ '': entrada ''"
  define E where "E = so_hhmm (case map_of info ''entrada'' of None \<Rightarrow> ''--:--'' | Some e \<Rightarrow> e)"
  define M where "M = '' | sa'' @ [CHR 0xED] @ ''da ''"
  define S where "S = so_hhmm (case map_of info ''saida'' of None \<Rightarrow> ''--:--'' | Some x \<Rightarrow> x)"
  have l: "linha_usuario uid info = A @ (E @ (M @ S))"
    by (simp add: linha_usuario_partes A_def E_def M_def S_def)
  have A: "CHR 0x0A \<notin> set A" "A \<noteq> []" "hd A = CHR ''-''" using assms by (simp_all add: A_def)
  have M: "CHR 0x0A \<notin> set M" "CHR ''|'' \<in> set M" by (simp_all add: M_def)
  have E: "CHR '' '' \<notin> set E" unfolding E_def by (rule so_hhmm_sem_espaco)
  have S: "CHR '' '' \<notin> set S" unfolding S_def by (rule so_hhmm_sem_espaco)
  have "\<forall>l \<in> set (split_sep (CHR 0x0A) S). CHR '' '' \<notin> set l"
    using S split_sep_elem_subset by fastforce
  then have tS: "\<forall>l \<in> set (tl (split_sep (CHR 0x0A) S)). CHR '' '' \<notin> set l"
    by (metis list.set_sel(2) split_sep_nao_vazio)
  have "\<forall>l \<in> set (split_sep (CHR 0x0A) (M @ S)). CHR '' '' \<notin> set l \<or> CHR ''|'' \<in> set l"
    unfolding split_sep_sem_prefixo [OF M(1)] using M(2) tS by auto
  from fora_da_grade_append [OF E this]
  have R: "\<forall>l \<in> set (split_sep (CHR 0x0A) (E @ M @ S)). CHR '' '' \<notin> set l \<or> CHR ''|'' \<in> set l" .
  then have tR: "\<forall>l \<in> set (tl (split_sep (CHR 0x0A) (E @ M @ S))). fora_da_grade l"
    unfolding fora_da_grade_def by (metis list.set_sel(2) split_sep_nao_vazio)
  have "fora_da_grade (A @ hd (split_sep (CHR 0x0A) (E @ M @ S)))"
    using A by (simp add: fora_da_grade_def)
  with tR show ?thesis
    unfolding l split_sep_sem_prefixo [OF A(1)] by simp
qed

lemma fmt_0d_sem_nl: "CHR 0x0A \<notin> set (fmt_0d w i)"
  using fmt_0d_chars [of "CHR 0x0A" w i] is_digit_nao [of "CHR 0x0A"] by auto

lemma titulo_dia_fora_da_grade:
  "\<forall>l \<in> set (split_sep (CHR 0x0A) (titulo_dia dia month)). fora_da_grade l"
proof -
  define r where "r = ''__Dia '' @ fmt_0d 2 dia @ ''/'' @ fmt_0d 2 month @ ''__''"
  have t: "titulo_dia dia month = CHR 0x0A # r" by (simp add: titulo_dia_def nl_def r_def)
  have "CHR 0x0A \<notin> set r" by (simp add: r_def fmt_0d_sem_nl)
  then have "split_sep (CHR 0x0A) r = [r]" by (rule split_sep_sem)
  moreover have "hd r = CHR ''_''" by (simp add: r_def)
  ultimately show ?thesis unfolding t by (simp add: fora_da_grade_def)
qed

lemma set_update_subset: "set (AList.update k v al) \<subseteq> insert (k, v) (set al)"
  by (induction al) auto

lemma foldl_registros_mes_subset:
  "set (foldl (\<lambda>acc (data_str, us). if startswith data_str mk then AList.update data_str us acc else acc)
          acc regs)
     \<subseteq> set acc \<union> {(k, us). (k, us) \<in> set regs \<and> startswith k mk}"
proof (induction regs arbitrary: acc)
  case Nil
  then show ?case by simp
next
  case (Cons p regs)
  obtain k us where p: "p = (k, us)" by (cases p)
  show ?case
  proof (cases "startswith k mk")
    case True
    from Cons.IH [of "AList.update k us acc"] set_update_subset [of k us acc] True p
    show ?thesis by auto
  next
    case False
    from Cons.IH [of acc] False p show ?thesis by auto
  qed
qed

lemma registros_mes_subset:
  "(k, us) \<in> set (registros_mes mk regs) \<Longrightarrow> (k, us) \<in> set regs \<and> startswith k mk"
  using foldl_registros_mes_subset [of mk "[]" regs] unfolding registros_mes_def by auto

lemma linhas_dias_fora_da_grade:
  assumes "\<forall>(k, us) \<in> set rm. \<forall>(uid, info) \<in> set us. CHR 0x0A \<notin> set (nome_de uid info)"
  shows "linhas_dias month rm ks = Inr ls \<Longrightarrow>
         \<forall>x \<in> set ls. \<forall>l \<in> set (split_sep (CHR 0x0A) x). fora_da_grade l"
proof (induction ks arbitrary: ls)
  case Nil
  then show ?case by simp
next
  case (Cons a ks)
  from Cons.prems obtain y mo dia us ls' where
    a: "strptime_ymd a = Inr (y, mo, dia)" "map_of rm a = Some us"
      "linhas_dias month rm ks = Inr ls'"
    and ls: "ls = titulo_dia dia month # map (\<lambda>(user_id, info). linha_usuario user_id info) us @ ls'"
    by (auto split: sum.splits option.splits prod.splits)
  from a(2) have "(a, us) \<in> set rm" by (rule map_of_SomeD)
  with assms have n: "\<forall>(uid, info) \<in> set us. CHR 0x0A \<notin> set (nome_de uid info)" by auto
  have "\<forall>x \<in> set (map (\<lambda>(user_id, info). linha_usuario user_id info) us).
          \<forall>l \<in> set (split_sep (CHR 0x0A) x). fora_da_grade l"
    using n linha_usuario_fora_da_grade by fastforce
  with Cons.IH [OF a(3)] titulo_dia_fora_da_grade [of dia month] show ?case
    unfolding ls by auto
qed

subsection \<open>The weeks of the month and the rows of the grid\<close>

lemma concat_chunks: "0 < n \<Longrightarrow> concat (chunks n xs) = xs"
proof (induction n xs rule: chunks.induct)
  case (1 n xs)
  then show ?case by (subst chunks.simps) auto
qed

lemma length_chunks:
  "n dvd length xs \<Longrightarrow> c \<in> set (chunks n xs) \<Longrightarrow> length c = n"
proof (induction n xs rule: chunks.induct)
  case (1 n xs)
  show ?case
  proof (cases "n = 0 \<or> xs = []")
    case True
    with "1.prems"(2) show ?thesis by (subst (asm) chunks.simps) simp
  next
    case False
    from "1.prems"(1) False have le: "n \<le> length xs" by (auto dest: dvd_imp_le)
    from "1.prems"(1) le have d: "n dvd length (drop n xs)" by (simp add: dvd_diff_nat)
    from "1.prems"(2) False have "c = take n xs \<or> c \<in> set (chunks n (drop n xs))"
      by (subst (asm) chunks.simps) auto
    with "1.IH" [OF False d] le show ?thesis by auto
  qed
qed

lemma days_in_month_limites:
  assumes "1 \<le> month" and "month \<le> 12"
  shows "28 \<le> days_in_month year month \<and> days_in_month year month \<le> 31"
proof -
  from assms have "month \<in> {1, 2, 3, 4, 5, 6, 7, 8, 9, 10, 11, 12}" by simp presburger
  then show ?thesis by (auto simp: days_in_month_def mdays_def)
qed

lemma sete_divide_dias:
  assumes "0 \<le> (n :: int)"
  shows "7 dvd (nat (w mod 7) + length [1..n] + nat ((0 - w - n) mod 7))"
proof -
  have "int (nat (w mod 7) + length [1..n] + nat ((0 - w - n) mod 7))
          = w mod 7 + n + (0 - w - n) mod 7"
    using assms by simp
  moreover have "(w mod 7 + n + (0 - w - n) mod 7) mod 7 = 0" by presburger
  ultimately have "int (nat (w mod 7) + length [1..n] + nat ((0 - w - n) mod 7)) mod 7 = 0"
    by simp
  then show ?thesis by presburger
qed

lemma monthdayscalendar_semanas:
  assumes "1 \<le> month" and "month \<le> 12"
  shows "\<exists>weeks. monthdayscalendar year month = Inr weeks \<and>
           (\<forall>week \<in> set weeks. length week = 7) \<and>
           concat weeks = replicate (nat (weekday year month 1 mod 7)) 0
                            @ [1..days_in_month year month]
                            @ replicate (nat ((0 - weekday year month 1 - days_in_month year month) mod 7)) 0"
proof -
  let ?days = "replicate (nat (weekday year month 1 mod 7)) 0 @ [1..days_in_month year month]
                 @ replicate (nat ((0 - weekday year month 1 - days_in_month year month) mod 7)) 0"
  from days_in_month_limites [OF assms, of year] have "0 \<le> days_in_month year month" by simp
  from sete_divide_dias [OF this, of "weekday year month 1"]
  have "7 dvd length ?days" by (simp add: add.assoc)
  then have "\<forall>week \<in> set (chunks 7 ?days). length week = 7"
    using length_chunks by blast
  moreover have "concat (chunks 7 ?days) = ?days" by (rule concat_chunks) simp
  ultimately show ?thesis using monthdayscalendar_Inr [OF assms, of year] by simp
qed

lemma length_digits_99: "n < 100 \<Longrightarrow> length (digits n) \<le> 2 \<and> 0 < length (digits n)"
  using length_digits_1 [of n] length_digits_2 [of n] by (cases "n < 10") auto

lemma length_celula: "0 \<le> d \<Longrightarrow> d \<le> 99 \<Longrightarrow> length (celula d) = 3"
  using length_digits_99 [of "nat d"]
  by (auto simp: celula_def fmt_2d_def rjust_def str_int_def)

lemma celula_chars: "0 \<le> d \<Longrightarrow> c \<in> set (celula d) \<Longrightarrow> is_digit c \<or> c = CHR '' ''"
  by (auto simp: celula_def fmt_2d_def rjust_def str_int_def dest: is_digit_digits
      split: if_splits)

lemma celula_espaco: "CHR '' '' \<in> set (celula d)"
  by (simp add: celula_def)

lemma set_join: "set (join sep xs) \<subseteq> set sep \<union> \<Union> (set ` set xs)"
  by (induction sep xs rule: join.induct) auto

lemma set_hd_join: "xs \<noteq> [] \<Longrightarrow> set (hd xs) \<subseteq> set (join sep xs)"
  by (induction sep xs rule: join.induct) auto

lemma linha_semana_chars:
  assumes "\<forall>d \<in> set week. 0 \<le> d" and "c \<in> set (linha_semana week)"
  shows "is_digit c \<or> c = CHR '' ''"
proof -
  from assms(2) set_join [of "'' ''" "map celula week"]
  have "c = CHR '' '' \<or> (\<exists>d \<in> set week. c \<in> set (celula d))"
    unfolding linha_semana_def by auto
  with assms(1) celula_chars show ?thesis by blast
qed

lemma linha_semana_espaco: "week \<noteq> [] \<Longrightarrow> CHR '' '' \<in> set (linha_semana week)"
  using set_hd_join [of "map celula week" "'' ''"] celula_espaco [of "hd week"]
  unfolding linha_semana_def by (auto simp: hd_map)

lemma is_digit_hd:
  "is_digit c \<or> c = CHR '' '' \<Longrightarrow>
   c \<noteq> CHR ''-'' \<and> c \<noteq> CHR ''_'' \<and> c \<noteq> CHR ''*'' \<and> c \<noteq> CHR ''|'' \<and> c \<noteq> CHR 0x0A \<and> c \<noteq> CHR ''S''"
  by (auto simp: is_digit_def less_eq_char_def)

lemma linha_semana_na_grade:
  assumes "\<forall>d \<in> set week. 0 \<le> d" and "week \<noteq> []"
  shows "\<not> fora_da_grade (linha_semana week) \<and> CHR 0x0A \<notin> set (linha_semana week) \<and>
         linha_semana week \<noteq> cabecalho"
proof -
  define r where "r = linha_semana week"
  have ch: "c \<noteq> CHR ''-'' \<and> c \<noteq> CHR ''_'' \<and> c \<noteq> CHR ''*'' \<and> c \<noteq> CHR ''|'' \<and> c \<noteq> CHR 0x0A \<and> c \<noteq> CHR ''S''"
    if "c \<in> set r" for c
    using that linha_semana_chars [OF assms(1), of c] is_digit_hd [of c] unfolding r_def by blast
  have sp: "CHR '' '' \<in> set r" unfolding r_def using assms(2) by (rule linha_semana_espaco)
  then have ne: "r \<noteq> []" by auto
  then have "hd r \<in> set r" by simp
  from ch [OF this] have hd: "hd r \<notin> set ''-_*''" by simp
  have bar: "CHR ''|'' \<notin> set r" using ch by blast
  have nl: "CHR 0x0A \<notin> set r" using ch by blast
  have "CHR ''S'' \<notin> set r" using ch by blast
  moreover have "CHR ''S'' \<in> set cabecalho" by (simp add: cabecalho_def)
  ultimately have "r \<noteq> cabecalho" by metis
  moreover have "\<not> fora_da_grade r" unfolding fora_da_grade_def using ne hd sp bar by blast
  ultimately show ?thesis using nl unfolding r_def by blast
qed

lemma cabecalho_na_grade:
  "\<not> fora_da_grade cabecalho \<and> CHR 0x0A \<notin> set cabecalho"
  by (simp add: fora_da_grade_def cabecalho_def)

lemma cerca_sem_nl: "CHR 0x0A \<notin> set cerca \<and> cerca \<noteq> cabecalho"
  by (simp add: cerca_def cabecalho_def)

lemma aviso_fora_da_grade:
  "fora_da_grade aviso_sem_registros \<and> CHR 0x0A \<notin> set aviso_sem_registros"
  by (simp add: fora_da_grade_def aviso_sem_registros_def)

lemma titulo_registros_fora_da_grade:
  "fora_da_grade titulo_registros \<and> CHR 0x0A \<notin> set titulo_registros"
  by (simp add: fora_da_grade_def titulo_registros_def)

lemma split_sep_linhas_grade:
  assumes "\<forall>l \<in> set ls. CHR 0x0A \<notin> set l"
  shows "concat (map (split_sep (CHR 0x0A)) ls) = ls"
  using assms by (induction ls) (simp_all add: split_sep_sem)

lemma linhas_calendario_forma:
  assumes "monthdayscalendar year month = Inr weeks"
    and "linhas_calendario year month regs = Inr linhas"
    and "\<forall>(k, us) \<in> set regs. startswith k (month_key year month) \<longrightarrow>
           (\<forall>(uid, info) \<in> set us. CHR 0x0A \<notin> set (nome_de uid info))"
  shows "\<exists>resto. linhas = [cerca, cabecalho] @ map linha_semana weeks @ [cerca] @ resto \<and>
           (\<forall>x \<in> set resto. \<forall>l \<in> set (split_sep (CHR 0x0A) x). fora_da_grade l)"
proof (cases "registros_mes (month_key year month) regs = []")
  case True
  with assms(1,2) have "linhas = [cerca, cabecalho] @ map linha_semana weeks @ [cerca]
      @ [aviso_sem_registros]"
    by (simp add: linhas_calendario_def)
  moreover have "\<forall>l \<in> set (split_sep (CHR 0x0A) aviso_sem_registros). fora_da_grade l"
    using aviso_fora_da_grade by (simp add: split_sep_sem)
  ultimately show ?thesis by (intro exI [of _ "[aviso_sem_registros]"]) simp
next
  case False
  let ?rm = "registros_mes (month_key year month) regs"
  from False assms(1,2) obtain ls where
    ls: "linhas_dias month ?rm (sort (map fst ?rm)) = Inr ls"
    and l: "linhas = [cerca, cabecalho] @ map linha_semana weeks @ [cerca] @ (titulo_registros # ls)"
    by (auto simp: linhas_calendario_def Let_def split: sum.splits)
  have "\<forall>(k, us) \<in> set ?rm. \<forall>(uid, info) \<in> set us. CHR 0x0A \<notin> set (nome_de uid info)"
    using assms(3) registros_mes_subset by fastforce
  from linhas_dias_fora_da_grade [OF this ls]
  have "\<forall>x \<in> set ls. \<forall>l \<in> set (split_sep (CHR 0x0A) x). fora_da_grade l" .
  moreover have "\<forall>l \<in> set (split_sep (CHR 0x0A) titulo_registros). fora_da_grade l"
    using titulo_registros_fora_da_grade by (simp add: split_sep_sem)
  ultimately show ?thesis using l by (intro exI [of _ "titulo_registros # ls"]) simp
qed

lemma join_cons_cons: "join sep ((x # w) # ws) = x # join sep (w # ws)"
  by (cases ws) simp_all

lemma join_split_sep: "join [c] (split_sep c s) = s"
proof (induction s)
  case Nil
  then show ?case by simp
next
  case (Cons x s)
  obtain w ws where r: "split_sep c s = w # ws" by (cases "split_sep c s") auto
  with Cons show ?case by (simp add: join_cons_cons)
qed

lemma semanas_sem_nl:
  assumes "1 \<le> month" and "month \<le> 12"
    and "monthdayscalendar year month = Inr weeks"
  shows "\<forall>l \<in> set ([cerca, cabecalho] @ map linha_semana weeks @ [cerca]). CHR 0x0A \<notin> set l"
proof -
  from monthdayscalendar_semanas [OF assms(1,2), of year] assms(3) have
    w7: "\<forall>week \<in> set weeks. length week = 7"
    and cw: "concat weeks =
      replicate (nat (weekday year month 1 mod 7)) 0 @ [1..days_in_month year month]
        @ replicate (nat ((0 - weekday year month 1 - days_in_month year month) mod 7)) 0"
    by auto
  have "CHR 0x0A \<notin> set (linha_semana week)" if "week \<in> set weeks" for week
  proof -
    have "\<forall>d \<in> set week. 0 \<le> d"
    proof
      fix d assume "d \<in> set week"
      with that have "d \<in> set (concat weeks)" by auto
      then show "0 \<le> d" unfolding cw by auto
    qed
    moreover have "week \<noteq> []" using w7 that by auto
    ultimately show ?thesis using linha_semana_na_grade by blast
  qed
  with cabecalho_na_grade cerca_sem_nl show ?thesis by auto
qed

lemma join_contem:
  "x \<in> set xs \<Longrightarrow>
   \<exists>pre post. join [c] xs = pre @ x @ post \<and> (pre = [] \<or> last pre = c) \<and>
              (post = [] \<or> hd post = c)"
proof (induction "[c]" xs rule: join.induct)
  case 1
  then show ?case by simp
next
  case (2 y)
  then show ?case by (intro exI [of _ "[]"]) simp
next
  case (3 y z zs)
  show ?case
  proof (cases "x = y")
    case True
    show ?thesis
      by (intro exI [of _ "[]"] exI [of _ "[c] @ join [c] (z # zs)"]) (simp add: True)
  next
    case False
    with "3.prems" have "x \<in> set (z # zs)" by simp
    from "3.hyps" [OF this] obtain pre post where
      j: "join [c] (z # zs) = pre @ x @ post" "pre = [] \<or> last pre = c" "post = [] \<or> hd post = c"
      by blast
    then show ?thesis
      by (intro exI [of _ "y @ [c] @ pre"] exI [of _ post]) auto
  qed
qed

lemma split_sep_join_contem:
  assumes "x \<in> set xs" and "c \<notin> set x"
  shows "x \<in> set (split_sep c (join [c] xs))"
proof -
  from assms(1) have "xs \<noteq> []" by auto
  then have "split_sep c (join [c] xs) = concat (map (split_sep c) xs)"
    by (rule split_sep_join)
  moreover have "split_sep c x = [x]" using assms(2) by (rule split_sep_sem)
  ultimately show ?thesis using assms(1) by force
qed

section \<open>Claims\<close>

subsection \<open>C1: a platform error during the publish\<close>




subsection \<open>C2: the grid of the rendered calendar\<close>

text \<open>
  C2, as the code has it. For a month in 1 to 12 (and any year), and a record set on
  which renderizar_calendario returns and in which no name listed for that month has a
  line break: the string returned, split at line breaks, is the fence, the weekday
  header, one row per week of the month in order, the fence, and then lines none of
  which is the header or a row; so it has exactly one header line. The weeks are those
  of \<open>monthdayscalendar\<close>: seven days each, together the days 1 to the last of the
  month in order, padded with zeros to whole Monday-first weeks. Every row is seven
  fields of three characters joined by single spaces.
\<close>

theorem grade_do_calendario:
  assumes "1 \<le> month" and "month \<le> 12"
    and "renderizar_calendario year month regs = Inr out"
    and "\<forall>(k, us) \<in> set regs. startswith k (month_key year month) \<longrightarrow>
           (\<forall>(uid, info) \<in> set us. CHR 0x0A \<notin> set (nome_de uid info))"
  shows "\<exists>weeks tail.
           monthdayscalendar year month = Inr weeks \<and>
           (\<forall>week \<in> set weeks. length week = 7) \<and>
           concat weeks =
             replicate (nat (weekday year month 1 mod 7)) 0 @ [1..days_in_month year month]
               @ replicate (nat ((0 - weekday year month 1 - days_in_month year month) mod 7)) 0 \<and>
           split_sep (CHR 0x0A) out =
             [cerca, cabecalho] @ map linha_semana weeks @ [cerca] @ tail \<and>
           (\<forall>week \<in> set weeks.
              \<exists>cells. length cells = 7 \<and> (\<forall>c \<in> set cells. length c = 3) \<and>
                      linha_semana week = join '' '' cells) \<and>
           (\<forall>l \<in> set tail. l \<noteq> cabecalho \<and> l \<notin> set (map linha_semana weeks)) \<and>
           count_list (split_sep (CHR 0x0A) out) cabecalho = 1"
proof -
  from monthdayscalendar_semanas [OF assms(1,2), of year] obtain weeks where
    w: "monthdayscalendar year month = Inr weeks"
    and w7: "\<forall>week \<in> set weeks. length week = 7"
    and cw: "concat weeks =
      replicate (nat (weekday year month 1 mod 7)) 0 @ [1..days_in_month year month]
        @ replicate (nat ((0 - weekday year month 1 - days_in_month year month) mod 7)) 0"
    by blast
  have dias: "0 \<le> d \<and> d \<le> 99" if "week \<in> set weeks" "d \<in> set week" for week d
  proof -
    from that have "d \<in> set (concat weeks)" by auto
    then have "d = 0 \<or> (1 \<le> d \<and> d \<le> days_in_month year month)" unfolding cw by auto
    with days_in_month_limites [OF assms(1,2), of year] show ?thesis by auto
  qed
  have grade: "\<not> fora_da_grade (linha_semana week) \<and> CHR 0x0A \<notin> set (linha_semana week) \<and>
      linha_semana week \<noteq> cabecalho" if "week \<in> set weeks" for week
  proof (rule linha_semana_na_grade)
    show "\<forall>d \<in> set week. 0 \<le> d" using dias [OF that] by blast
    show "week \<noteq> []" using w7 that by auto
  qed
  have celulas: "\<exists>cells. length cells = 7 \<and> (\<forall>c \<in> set cells. length c = 3) \<and>
      linha_semana week = join '' '' cells" if "week \<in> set weeks" for week
  proof (intro exI [of _ "map celula week"] conjI)
    show "length (map celula week) = 7" using w7 that by simp
    show "\<forall>c \<in> set (map celula week). length c = 3"
      using dias [OF that] length_celula by auto
    show "linha_semana week = join '' '' (map celula week)" by (simp add: linha_semana_def)
  qed
  from assms(3) obtain linhas where
    li: "linhas_calendario year month regs = Inr linhas" and out: "out = join nl linhas"
    by (auto simp: renderizar_calendario_def split: sum.splits)
  from linhas_calendario_forma [OF w li assms(4)] obtain resto where
    l: "linhas = [cerca, cabecalho] @ map linha_semana weeks @ [cerca] @ resto"
    and r: "\<forall>x \<in> set resto. \<forall>l \<in> set (split_sep (CHR 0x0A) x). fora_da_grade l"
    by blast
  define tail where "tail = concat (map (split_sep (CHR 0x0A)) resto)"
  have tl: "\<forall>l \<in> set tail. fora_da_grade l" using r unfolding tail_def by auto
  have g: "\<forall>l \<in> set ([cerca, cabecalho] @ map linha_semana weeks @ [cerca]). CHR 0x0A \<notin> set l"
    using grade cabecalho_na_grade cerca_sem_nl by auto
  have "split_sep (CHR 0x0A) out = concat (map (split_sep (CHR 0x0A)) linhas)"
    unfolding out nl_def using l by (intro split_sep_join) simp
  also have "\<dots> = concat (map (split_sep (CHR 0x0A))
                      ([cerca, cabecalho] @ map linha_semana weeks @ [cerca])) @ tail"
    unfolding l tail_def by simp
  also have "\<dots> = ([cerca, cabecalho] @ map linha_semana weeks @ [cerca]) @ tail"
    using split_sep_linhas_grade [OF g] by simp
  finally have sp: "split_sep (CHR 0x0A) out =
      [cerca, cabecalho] @ map linha_semana weeks @ [cerca] @ tail" by simp
  have t1: "\<forall>l \<in> set tail. l \<noteq> cabecalho \<and> l \<notin> set (map linha_semana weeks)"
  proof
    fix l assume "l \<in> set tail"
    with tl have f: "fora_da_grade l" by blast
    with cabecalho_na_grade have "l \<noteq> cabecalho" by blast
    moreover from f grade have "l \<notin> set (map linha_semana weeks)" by auto
    ultimately show "l \<noteq> cabecalho \<and> l \<notin> set (map linha_semana weeks)" ..
  qed
  have "cabecalho \<notin> set (map linha_semana weeks)"
  proof
    assume "cabecalho \<in> set (map linha_semana weeks)"
    then obtain week where "week \<in> set weeks" "linha_semana week = cabecalho" by auto
    with grade show False by blast
  qed
  then have c0: "count_list (map linha_semana weeks) cabecalho = 0" by (rule count_notin)
  have c1: "count_list tail cabecalho = 0" using t1 by (intro count_notin) auto
  have c2: "cerca \<noteq> cabecalho" using cerca_sem_nl by simp
  have cnt: "count_list (split_sep (CHR 0x0A) out) cabecalho = 1"
    unfolding sp using c0 c1 c2 by simp
  from w w7 cw sp celulas t1 cnt show ?thesis by blast
qed

text \<open>
  An instance of C2 as the code has it: November 2025 with the record of alice.
\<close>

theorem grade_do_calendario_2025_11:
  "\<exists>out tail.
     renderizar_calendario 2025 11
       [(''2025-11-28'',
         [(''1'', [(''name'', ''alice''), (''entrada'', ''2025-11-28 09:00''),
                   (''saida'', ''--:--'')])])] = Inr out \<and>
     split_sep (CHR 0x0A) out =
       [cerca, cabecalho,
        ''                     1   2 '',
        '' 3   4   5   6   7   8   9 '',
        ''10  11  12  13  14  15  16 '',
        ''17  18  19  20  21  22  23 '',
        ''24  25  26  27  28  29  30 '',
        cerca] @ tail \<and>
     count_list (split_sep (CHR 0x0A) out) cabecalho = 1"
proof -
  define regs :: registros where "regs = [(''2025-11-28'',
         [(''1'', [(''name'', ''alice''), (''entrada'', ''2025-11-28 09:00''),
                   (''saida'', ''--:--'')])])]"
  have "case renderizar_calendario 2025 11 regs of Inl _ \<Rightarrow> False | Inr _ \<Rightarrow> True"
    unfolding regs_def by code_simp
  then obtain out where r: "renderizar_calendario 2025 11 regs = Inr out"
    by (cases "renderizar_calendario 2025 11 regs") auto
  have n: "\<forall>(k, us) \<in> set regs. startswith k (month_key 2025 11) \<longrightarrow>
           (\<forall>(uid, info) \<in> set us. CHR 0x0A \<notin> set (nome_de uid info))"
    by (simp add: regs_def nome_de_def)
  have m: "monthdayscalendar 2025 11 =
      Inr [[0, 0, 0, 0, 0, 1, 2], [3, 4, 5, 6, 7, 8, 9], [10, 11, 12, 13, 14, 15, 16],
           [17, 18, 19, 20, 21, 22, 23], [24, 25, 26, 27, 28, 29, 30]]"
    by code_simp
  have l: "map linha_semana [[0, 0, 0, 0, 0, 1, 2], [3, 4, 5, 6, 7, 8, 9],
           [10, 11, 12, 13, 14, 15, 16], [17, 18, 19, 20, 21, 22, 23],
           [24, 25, 26, 27, 28, 29, 30]] =
       [''                     1   2 '',
        '' 3   4   5   6   7   8   9 '',
        ''10  11  12  13  14  15  16 '',
        ''17  18  19  20  21  22  23 '',
        ''24  25  26  27  28  29  30 '']"
    by code_simp
  from grade_do_calendario [OF _ _ r n] obtain weeks tail where
    "monthdayscalendar 2025 11 = Inr weeks"
    "split_sep (CHR 0x0A) out = [cerca, cabecalho] @ map linha_semana weeks @ [cerca] @ tail"
    "count_list (split_sep (CHR 0x0A) out) cabecalho = 1"
    by auto
  with m l r have "\<exists>out tail. renderizar_calendario 2025 11 regs = Inr out \<and>
     split_sep (CHR 0x0A) out =
       [cerca, cabecalho,
        ''                     1   2 '',
        '' 3   4   5   6   7   8   9 '',
        ''10  11  12  13  14  15  16 '',
        ''17  18  19  20  21  22  23 '',
        ''24  25  26  27  28  29  30 '',
        cerca] @ tail \<and>
     count_list (split_sep (CHR 0x0A) out) cabecalho = 1"
    by (intro exI [of _ out] exI [of _ tail]) simp
  then show ?thesis unfolding regs_def .
qed

text \<open>
  C2 as stated fails for a record set: a stored name that holds a line break, the text
  of the weekday header and another line break puts a second header line into the
  string returned.
\<close>

theorem dois_cabecalhos:
  "\<exists>out.
     renderizar_calendario 2025 11
       [(''2025-11-28'',
         [(''1'', [(''name'', ''x'' @ [CHR 0x0A] @ ''Seg Ter Qua Qui Sex S'' @ [CHR 0xE1] @ ''b Dom''
                               @ [CHR 0x0A] @ ''y''),
                   (''entrada'', ''2025-11-28 09:00''), (''saida'', ''--:--'')])])] = Inr out \<and>
     count_list (split_sep (CHR 0x0A) out) cabecalho = 2"
proof -
  define regs :: registros where "regs = [(''2025-11-28'',
         [(''1'', [(''name'', ''x'' @ [CHR 0x0A] @ ''Seg Ter Qua Qui Sex S'' @ [CHR 0xE1] @ ''b Dom''
                               @ [CHR 0x0A] @ ''y''),
                   (''entrada'', ''2025-11-28 09:00''), (''saida'', ''--:--'')])])]"
  have "case renderizar_calendario 2025 11 regs of
          Inl _ \<Rightarrow> False
        | Inr out \<Rightarrow> count_list (split_sep (CHR 0x0A) out) cabecalho = 2"
    unfolding regs_def by code_simp
  then have "\<exists>out. renderizar_calendario 2025 11 regs = Inr out \<and>
      count_list (split_sep (CHR 0x0A) out) cabecalho = 2"
    by (cases "renderizar_calendario 2025 11 regs") auto
  then show ?thesis unfolding regs_def .
qed

subsection \<open>C3: the stored display name\<close>

text \<open>
  C3, as the code has it. registrar_ponto writes the display name only when it creates
  the record (line 226); a click on an existing record stamps a time and leaves the
  name. So along any sequence of clicks of one user on one day, after each click the
  stored record of that user and day has the name it had before the sequence, or, when
  there was no record, the display name of the first click: first write wins.
\<close>

theorem nome_e_do_primeiro_registro:
  assumes "codec_ok J" and "documento J w = Inr d"
    and "\<forall>ev \<in> set evs. user_id (fst ev) = u \<and> get_date_str (snd (snd ev)) = date_str"
  shows "\<forall>n < length evs.
           \<exists>d' info.
             documento J (registrar_pontos J amb (take (Suc n) evs) w) = Inr d' \<and>
             registro_de (regs_de d') date_str (str_int u) = Some info \<and>
             map_of info ''name'' =
               (case registro_de (regs_de d) date_str (str_int u) of
                  None \<Rightarrow> Some (display_name (fst (hd evs)))
                | Some i0 \<Rightarrow> map_of i0 ''name'')"
proof (intro allI impI)
  fix n assume n: "n < length evs"
  then obtain ev0 rest where evs: "evs = ev0 # rest" by (cases evs) auto
  obtain interaction tipo agora where ev0: "ev0 = (interaction, tipo, agora)" by (cases ev0)
  from assms(3) evs ev0 have same: "user_id interaction = u" "get_date_str agora = date_str"
    by auto
  have rest: "\<forall>ev \<in> set (take n rest). user_id (fst ev) = u \<and> get_date_str (snd (snd ev)) = date_str"
    using assms(3) evs by (auto dest: in_set_takeD)
  let ?w1 = "snd (registrar_ponto J amb interaction tipo agora w)"
  from registrar_ponto_passo [OF assms(1,2)] obtain d1 where
    d1: "documento J ?w1 = Inr d1"
      "regs_de d1 = marcar_ponto (get_date_str agora) (str_int (user_id interaction))
                      (display_name interaction) tipo (strftime_minuto agora) (regs_de d)"
    by blast
  from nome_marcar_ponto [of date_str "str_int u" "display_name interaction" tipo
      "strftime_minuto agora" "regs_de d"] obtain i1 where
    i1: "registro_de (regs_de d1) date_str (str_int u) = Some i1"
      "map_of i1 ''name'' =
         (case registro_de (regs_de d) date_str (str_int u) of
            None \<Rightarrow> Some (display_name interaction)
          | Some i0 \<Rightarrow> map_of i0 ''name'')"
    unfolding d1(2) same by auto
  from registrar_pontos_nome [OF assms(1) d1(1) i1(1) rest, of amb] i1(2)
  show "\<exists>d' info.
             documento J (registrar_pontos J amb (take (Suc n) evs) w) = Inr d' \<and>
             registro_de (regs_de d') date_str (str_int u) = Some info \<and>
             map_of info ''name'' =
               (case registro_de (regs_de d) date_str (str_int u) of
                  None \<Rightarrow> Some (display_name (fst (hd evs)))
                | Some i0 \<Rightarrow> map_of i0 ''name'')"
    unfolding evs ev0 list.sel fst_conv by simp
qed

text \<open>
  An instance of C3 as the code has it, on the same two clicks: the stored name is the
  one of the first click.
\<close>

theorem nome_e_do_primeiro_registro_alice:
  "\<exists>d' info.
     documento \<lparr>json_load = Inr, json_dump = id\<rparr>
       (registrar_pontos \<lparr>json_load = Inr, json_dump = id\<rparr>
          \<lparr>calendar_channel_id = 0, canal_em_cache = False, falha_fetch_channel = None,
            falha_fetch_message = None, falha_edit = None, falha_send = None\<rparr>
          [(\<lparr>user_id = 1, display_name = ''alice''\<rparr>, ''entrada'',
            \<lparr>dt_year = 2025, dt_month = 11, dt_day = 28, dt_hour = 9, dt_minute = 0\<rparr>),
           (\<lparr>user_id = 1, display_name = ''bob''\<rparr>, ''saida'',
            \<lparr>dt_year = 2025, dt_month = 11, dt_day = 28, dt_hour = 18, dt_minute = 0\<rparr>)]
          \<lparr>arquivo = None, canal = Map.empty, proximo_id = 1, trace = []\<rparr>) = Inr d' \<and>
     registro_de (regs_de d') ''2025-11-28'' ''1'' = Some info \<and>
     map_of info ''name'' = Some ''alice''"
proof -
  define J :: "dados json" where "J = \<lparr>json_load = Inr, json_dump = id\<rparr>"
  define amb where "amb = \<lparr>calendar_channel_id = 0, canal_em_cache = False,
    falha_fetch_channel = None, falha_fetch_message = None, falha_edit = None,
    falha_send = None\<rparr>"
  define w :: "dados mundo" where
    "w = \<lparr>arquivo = None, canal = Map.empty, proximo_id = 1, trace = []\<rparr>"
  define t9 where
    "t9 = \<lparr>dt_year = 2025, dt_month = 11, dt_day = 28, dt_hour = 9, dt_minute = 0\<rparr>"
  define t18 where
    "t18 = \<lparr>dt_year = 2025, dt_month = 11, dt_day = 28, dt_hour = 18, dt_minute = 0\<rparr>"
  define evs where "evs = [(\<lparr>user_id = 1, display_name = ''alice''\<rparr>, ''entrada'', t9),
                           (\<lparr>user_id = 1, display_name = ''bob''\<rparr>, ''saida'', t18)]"
  have J: "codec_ok J" by (simp add: codec_ok_def J_def)
  have g: "get_date_str t9 = ''2025-11-28''" "get_date_str t18 = ''2025-11-28''"
    unfolding t9_def t18_def by code_simp+
  have u: "str_int 1 = ''1''" by code_simp
  have d: "documento J w = Inr documento_vazio"
    by (simp add: documento_arquivo w_def J_def)
  have b: "\<forall>ev \<in> set evs. user_id (fst ev) = 1 \<and> get_date_str (snd (snd ev)) = ''2025-11-28''"
    by (simp add: evs_def g)
  have n: "1 < length evs" by (simp add: evs_def)
  from nome_e_do_primeiro_registro [OF J d b, of amb, rule_format, OF n]
  have "\<exists>d' info. documento J (registrar_pontos J amb evs w) = Inr d' \<and>
     registro_de (regs_de d') ''2025-11-28'' ''1'' = Some info \<and>
     map_of info ''name'' = Some ''alice''"
    by (simp add: u evs_def regs_de_def documento_vazio_def registro_de_def)
  then show ?thesis unfolding J_def amb_def w_def t9_def t18_def evs_def .
qed

text \<open>
  C3 as stated fails: user 1 clocks in under the display name alice and clocks out, the
  same day, under the display name bob (no calendar channel is configured). After the
  second click the stored name is still alice.
\<close>

theorem nome_nao_e_do_ultimo_clique:
  "documento \<lparr>json_load = Inr, json_dump = id\<rparr>
     (registrar_pontos \<lparr>json_load = Inr, json_dump = id\<rparr>
        \<lparr>calendar_channel_id = 0, canal_em_cache = False, falha_fetch_channel = None,
          falha_fetch_message = None, falha_edit = None, falha_send = None\<rparr>
        [(\<lparr>user_id = 1, display_name = ''alice''\<rparr>, ''entrada'',
          \<lparr>dt_year = 2025, dt_month = 11, dt_day = 28, dt_hour = 9, dt_minute = 0\<rparr>),
         (\<lparr>user_id = 1, display_name = ''bob''\<rparr>, ''saida'',
          \<lparr>dt_year = 2025, dt_month = 11, dt_day = 28, dt_hour = 18, dt_minute = 0\<rparr>)]
        \<lparr>arquivo = None, canal = Map.empty, proximo_id = 1, trace = []\<rparr>) =
   Inr \<lparr>registros = Some
          [(''2025-11-28'',
            [(''1'', [(''name'', ''alice''), (''entrada'', ''2025-11-28 09:00''),
                      (''saida'', ''2025-11-28 18:00'')])])],
        mensagens = Some []\<rparr>"
proof -
  define J :: "dados json" where "J = \<lparr>json_load = Inr, json_dump = id\<rparr>"
  define amb where "amb = \<lparr>calendar_channel_id = 0, canal_em_cache = False,
    falha_fetch_channel = None, falha_fetch_message = None, falha_edit = None,
    falha_send = None\<rparr>"
  define w :: "dados mundo" where
    "w = \<lparr>arquivo = None, canal = Map.empty, proximo_id = 1, trace = []\<rparr>"
  define t9 where
    "t9 = \<lparr>dt_year = 2025, dt_month = 11, dt_day = 28, dt_hour = 9, dt_minute = 0\<rparr>"
  define t18 where
    "t18 = \<lparr>dt_year = 2025, dt_month = 11, dt_day = 28, dt_hour = 18, dt_minute = 0\<rparr>"
  define alice where "alice = \<lparr>user_id = 1, display_name = ''alice''\<rparr>"
  define bob where "bob = \<lparr>user_id = 1, display_name = ''bob''\<rparr>"
  have g: "get_date_str t9 = ''2025-11-28''" "get_date_str t18 = ''2025-11-28''"
    unfolding t9_def t18_def by code_simp+
  have s: "strftime_minuto t9 = ''2025-11-28 09:00''" "strftime_minuto t18 = ''2025-11-28 18:00''"
    unfolding t9_def t18_def by code_simp+
  have u: "str_int 1 = ''1''" by code_simp
  have a0: "calendar_channel_id amb = 0" by (simp add: amb_def)
  have c: "carregar_dados J w =
             (Inr documento_vazio,
              \<lparr>arquivo = Some documento_vazio, canal = Map.empty, proximo_id = 1,
                trace = [FileWrite documento_vazio, FileRead]\<rparr>)"
    by (simp add: carregar_dados_def garantir_arquivo_def registrar_evento_def J_def w_def)
  let ?w1 = "snd (registrar_ponto J amb alice ''entrada'' t9 w)"
  let ?d1 = "\<lparr>registros = Some [(''2025-11-28'',
       [(''1'', [(''name'', ''alice''), (''entrada'', ''2025-11-28 09:00''), (''saida'', ''--:--'')])])],
       mensagens = Some []\<rparr>"
  have 1: "arquivo ?w1 = Some ?d1"
    using registrar_ponto_sem_canal [OF a0 c, of alice "''entrada''" t9]
    by (simp add: g s u alice_def regs_de_def documento_vazio_def marcar_ponto_alice J_def)
  have c1: "carregar_dados J ?w1 = (Inr ?d1, registrar_evento FileRead ?w1)"
    using 1 by (simp add: carregar_dados_existe J_def)
  let ?w2 = "snd (registrar_ponto J amb bob ''saida'' t18 ?w1)"
  have 2: "arquivo ?w2 = Some \<lparr>registros = Some [(''2025-11-28'',
       [(''1'', [(''name'', ''alice''), (''entrada'', ''2025-11-28 09:00''),
                 (''saida'', ''2025-11-28 18:00'')])])], mensagens = Some []\<rparr>"
    using registrar_ponto_sem_canal [OF a0 c1, of bob "''saida''" t18]
    by (simp add: g s u bob_def regs_de_def marcar_ponto_bob J_def)
  have "documento J (registrar_pontos J amb [(alice, ''entrada'', t9), (bob, ''saida'', t18)] w) =
          Inr \<lparr>registros = Some [(''2025-11-28'',
       [(''1'', [(''name'', ''alice''), (''entrada'', ''2025-11-28 09:00''),
                 (''saida'', ''2025-11-28 18:00'')])])], mensagens = Some []\<rparr>"
    using 2 by (simp add: documento_arquivo J_def)
  then show ?thesis unfolding J_def amb_def w_def t9_def t18_def alice_def bob_def .
qed

subsection \<open>C4: publishing twice\<close>

text \<open>
  C4. Publishing twice in a row. Let a first atualizar_mensagem_calendario for a month
  return normally, with the channel configured, and let the platform fetch and edit
  without failure. Then the first call edited or sent a message \<open>i\<close> with the
  content \<open>emb\<close>, and the second call for the same month returns normally having only
  read the file, fetched message \<open>i\<close> and edited it with the same \<open>emb\<close>: the file
  (so the stored reference), the messages of the channel and the next message id are
  what they were, and nothing is sent.
\<close>

theorem publicar_duas_vezes:
  assumes "codec_ok J"
    and "calendar_channel_id amb \<noteq> 0"
    and "falha_fetch_message amb = None" and "falha_edit amb = None"
    and "atualizar_mensagem_calendario J amb year month w = (Inr u, w1)"
  shows "\<exists>i emb evs.
           trace w1 = trace w @ evs \<and>
           (MessageEdit i emb \<in> set evs \<or> ChannelSend emb \<in> set evs) \<and>
           canal w1 i = Some emb \<and>
           atualizar_mensagem_calendario J amb year month w1 =
             (Inr (),
              w1\<lparr>trace := trace w1 @ FileRead
                    # (if canal_em_cache amb then [] else [FetchChannel (calendar_channel_id amb)])
                    @ [FetchMessage (Some i), MessageEdit i emb]\<rparr>)"
proof -
  from atualizar_Inr_inv [OF assms(2,5)] obtain d wa wb descricao nome_mes where
    c: "carregar_dados J w = (Inr d, wa)" and o: "obter_canal amb wa = (Inr (), wb)"
    and r: "renderizar_calendario year month (regs_de d) = Inr descricao"
    and p: "MESES_PT month = Some nome_mes"
    and casos:
      "(\<exists>mi. map_of (msgs_de d) (month_key year month) = Some mi \<and> mi \<noteq> [] \<and>
             editar_mensagem amb (map_of mi ''message_id'')
               \<lparr>title = titulo_calendario nome_mes year, description = descricao\<rparr> wb
               = (Inr (), w1))
       \<or> (\<exists>wc. (wc = wb \<or>
                  (\<exists>mi. map_of (msgs_de d) (month_key year month) = Some mi \<and> mi \<noteq> [] \<and>
                     editar_mensagem amb (map_of mi ''message_id'')
                       \<lparr>title = titulo_calendario nome_mes year, description = descricao\<rparr> wb
                       = (Inl NotFound, wc))) \<and>
                criar_mensagem J amb d (msgs_de d) (month_key year month)
                  \<lparr>title = titulo_calendario nome_mes year, description = descricao\<rparr> wc
                  = (Inr (), w1))"
    by blast
  let ?emb = "\<lparr>title = titulo_calendario nome_mes year, description = descricao\<rparr>"
  from carregar_dados_Inr [OF c] obtain t ea where
    wa: "arquivo wa = Some t" "json_load J t = Inr d" "trace wa = trace w @ ea" by blast
  from obter_canal_Inr [OF o] obtain eb where
    wb: "arquivo wb = arquivo wa" "trace wb = trace wa @ eb"
    and ch: "canal_em_cache amb \<or> falha_fetch_channel amb = None"
    by (metis (no_types, lifting) mundo.select_convs(1) mundo.surjective mundo.update_convs(4)
        mundo.select_convs(4))
  from casos consider
    (editou) mi where "map_of (msgs_de d) (month_key year month) = Some mi" "mi \<noteq> []"
      "editar_mensagem amb (map_of mi ''message_id'') ?emb wb = (Inr (), w1)"
  | (criou) wc where
      "criar_mensagem J amb d (msgs_de d) (month_key year month) ?emb wc = (Inr (), w1)"
      "wc = wb \<or>
         (\<exists>mi. map_of (msgs_de d) (month_key year month) = Some mi \<and> mi \<noteq> [] \<and>
            editar_mensagem amb (map_of mi ''message_id'') ?emb wb = (Inl NotFound, wc))"
    by blast
  then show ?thesis
  proof cases
    case editou
    note mi = editou(1,2) and e = editou(3)
    from editar_mensagem_Inr [OF e] obtain i where
      i: "map_of mi ''message_id'' = Some i" "arquivo w1 = arquivo wb"
        "canal w1 = (canal wb)(i \<mapsto> ?emb)"
        "trace w1 = trace wb @ [FetchMessage (map_of mi ''message_id''), MessageEdit i ?emb]"
      by blast
    have 1: "trace w1 = trace w @ (ea @ eb @ [FetchMessage (Some i), MessageEdit i ?emb])"
      using i wa wb by simp
    have 2: "canal w1 i = Some ?emb" using i by simp
    have "arquivo w1 = Some t" using i wa wb by simp
    from atualizar_de_novo [OF assms(2,3,4) this wa(2) ch r p mi i(1) 2] 1 2
    show ?thesis by (intro exI [of _ i] exI [of _ ?emb] exI [of _ "ea @ eb @ [FetchMessage (Some i), MessageEdit i ?emb]"]) simp
  next
    case criou
    note cr = criou(1) and wc = criou(2)
    from wc obtain ec where ec: "trace wc = trace wb @ ec"
      using editar_mensagem_Inl by fastforce
    from criar_mensagem_Inr [OF cr assms(1)] obtain d' where
      d': "arquivo w1 = Some (json_dump J d')" "json_load J (json_dump J d') = Inr d'"
        "registros d' = registros d"
        "msgs_de d' = AList.update (month_key year month) [(''message_id'', proximo_id wc)] (msgs_de d)"
        "canal w1 = (canal wc)(proximo_id wc \<mapsto> ?emb)"
        "trace w1 = trace wc @ [ChannelSend ?emb, FileWrite (json_dump J d')]"
      by blast
    let ?i = "proximo_id wc"
    have 1: "trace w1 = trace w @ (ea @ eb @ ec @ [ChannelSend ?emb, FileWrite (json_dump J d')])"
      using d' ec wa wb by simp
    have 2: "canal w1 ?i = Some ?emb" using d' by simp
    have 3: "renderizar_calendario year month (regs_de d') = Inr descricao"
      using r regs_de_registros [OF d'(3)] by simp
    have 4: "map_of (msgs_de d') (month_key year month) = Some [(''message_id'', ?i)]"
      using d'(4) by (simp add: update_conv')
    have 5: "map_of [(''message_id'', ?i)] ''message_id'' = Some ?i" by simp
    have 6: "[(''message_id'', ?i)] \<noteq> []" by simp
    from atualizar_de_novo [OF assms(2,3,4) d'(1,2) ch 3 p 4 6 5 2] 1 2
    show ?thesis
      by (intro exI [of _ ?i] exI [of _ ?emb]
          exI [of _ "ea @ eb @ ec @ [ChannelSend ?emb, FileWrite (json_dump J d')]"]) simp
  qed
qed

text \<open>
  An instance of C4: the calendar of November 2025 is published twice from a store that
  does not exist yet, on a channel that has to be fetched.
\<close>

theorem publicar_duas_vezes_2025_11:
  "\<exists>w1 i emb.
     atualizar_mensagem_calendario \<lparr>json_load = Inr, json_dump = id\<rparr>
         \<lparr>calendar_channel_id = 7, canal_em_cache = False, falha_fetch_channel = None,
           falha_fetch_message = None, falha_edit = None, falha_send = None\<rparr> 2025 11
         \<lparr>arquivo = None, canal = Map.empty, proximo_id = 100, trace = []\<rparr> = (Inr (), w1) \<and>
     canal w1 i = Some emb \<and>
     atualizar_mensagem_calendario \<lparr>json_load = Inr, json_dump = id\<rparr>
         \<lparr>calendar_channel_id = 7, canal_em_cache = False, falha_fetch_channel = None,
           falha_fetch_message = None, falha_edit = None, falha_send = None\<rparr> 2025 11 w1 =
       (Inr (),
        w1\<lparr>trace := trace w1 @ [FileRead, FetchChannel 7, FetchMessage (Some i), MessageEdit i emb]\<rparr>)"
proof -
  define J :: "dados json" where "J = \<lparr>json_load = Inr, json_dump = id\<rparr>"
  define amb where "amb = \<lparr>calendar_channel_id = 7, canal_em_cache = False,
    falha_fetch_channel = None, falha_fetch_message = None, falha_edit = None, falha_send = None\<rparr>"
  define w :: "dados mundo" where
    "w = \<lparr>arquivo = None, canal = Map.empty, proximo_id = 100, trace = []\<rparr>"
  have J: "codec_ok J" by (simp add: codec_ok_def J_def)
  from renderizar_vazio_Inr [of 11 2025] obtain descricao where
    r: "renderizar_calendario 2025 11 [] = Inr descricao" by auto
  have p: "MESES_PT 11 = Some ''Novembro''" by (simp add: MESES_PT_def)
  have "fst (atualizar_mensagem_calendario J amb 2025 11 w) = Inr ()"
    by (simp add: atualizar_mensagem_calendario_def carregar_dados_def garantir_arquivo_def
        registrar_evento_def documento_vazio_def obter_canal_def criar_mensagem_def
        salvar_dados_def r p J_def amb_def w_def Let_def)
  then obtain w1 where 1: "atualizar_mensagem_calendario J amb 2025 11 w = (Inr (), w1)"
    by (metis prod.collapse)
  from publicar_duas_vezes [OF J _ _ _ 1] obtain i emb where
    "canal w1 i = Some emb"
    "atualizar_mensagem_calendario J amb 2025 11 w1 =
       (Inr (),
        w1\<lparr>trace := trace w1 @ FileRead
              # (if canal_em_cache amb then [] else [FetchChannel (calendar_channel_id amb)])
              @ [FetchMessage (Some i), MessageEdit i emb]\<rparr>)"
    by (auto simp: amb_def)
  with 1 have "\<exists>w1 i emb. atualizar_mensagem_calendario J amb 2025 11 w = (Inr (), w1) \<and>
     canal w1 i = Some emb \<and>
     atualizar_mensagem_calendario J amb 2025 11 w1 =
       (Inr (),
        w1\<lparr>trace := trace w1 @ [FileRead, FetchChannel 7, FetchMessage (Some i), MessageEdit i emb]\<rparr>)"
    by (intro exI [of _ w1] exI [of _ i] exI [of _ emb]) (simp add: amb_def)
  then show ?thesis unfolding J_def amb_def w_def .
qed

subsection \<open>C5: a stored message that is gone\<close>

text \<open>
  C5. The stored reference of the month names a message \<open>i\<close> that the platform reports
  as not found. With the channel configured and reachable, the calendar renderable and
  the send not failing, atualizar_mensagem_calendario returns normally after fetching
  \<open>i\<close> and sending exactly one message; the platform gives it the id \<open>proximo_id\<close>,
  the reference of the month is replaced by that id, everything else of the document is
  kept, and the document is saved: it is what the next load returns.
\<close>

theorem publicar_mensagem_sumida:
  assumes "codec_ok J"
    and "calendar_channel_id amb \<noteq> 0"
    and "carregar_dados J w = (Inr d, wa)"
    and "canal_em_cache amb \<or> falha_fetch_channel amb = None"
    and "renderizar_calendario year month (regs_de d) = Inr descricao"
    and "MESES_PT month = Some nome_mes"
    and "map_of (msgs_de d) (month_key year month) = Some message_info"
    and "map_of message_info ''message_id'' = Some i"
    and "fetch_message amb (Some i) w = Inl NotFound"
    and "falha_send amb = None"
  shows "\<exists>w' d' emb.
           atualizar_mensagem_calendario J amb year month w = (Inr (), w') \<and>
           emb = \<lparr>title = titulo_calendario nome_mes year, description = descricao\<rparr> \<and>
           trace w' = trace wa
             @ (if canal_em_cache amb then [] else [FetchChannel (calendar_channel_id amb)])
             @ [FetchMessage (Some i), ChannelSend emb, FileWrite (json_dump J d')] \<and>
           canal w' = (canal w)(proximo_id w \<mapsto> emb) \<and>
           proximo_id w' = proximo_id w + 1 \<and>
           d' = d\<lparr>mensagens := Some (AList.update (month_key year month)
                                        [(''message_id'', proximo_id w)] (msgs_de d))\<rparr> \<and>
           map_of (msgs_de d') (month_key year month) = Some [(''message_id'', proximo_id w)] \<and>
           arquivo w' = Some (json_dump J d') \<and>
           documento J w' = Inr d'"
proof -
  let ?emb = "\<lparr>title = titulo_calendario nome_mes year, description = descricao\<rparr>"
  let ?ch = "if canal_em_cache amb then [] else [FetchChannel (calendar_channel_id amb)]"
  let ?wb = "wa\<lparr>trace := trace wa @ ?ch\<rparr>"
  let ?wc = "registrar_evento (FetchMessage (Some i)) ?wb"
  let ?d' = "d\<lparr>mensagens := Some (AList.update (month_key year month)
                                        [(''message_id'', proximo_id w)] (msgs_de d))\<rparr>"
  from carregar_dados_Inr [OF assms(3)] have
    wa: "canal wa = canal w" "proximo_id wa = proximo_id w" by auto
  have o: "obter_canal amb wa = (Inr (), ?wb)"
    using assms(4) by (auto simp: obter_canal_def registrar_evento_def)
  have f: "fetch_message amb (Some i) ?wc = Inl NotFound"
    using assms(9) wa by (auto simp: fetch_message_def split: option.splits if_splits)
  have e: "editar_mensagem amb (Some i) ?emb ?wb = (Inl NotFound, ?wc)"
    unfolding editar_mensagem_def Let_def f by simp
  have ne: "message_info \<noteq> []" using assms(8) by auto
  let ?w' = "salvar_dados J ?d'
               ((registrar_evento (ChannelSend ?emb) ?wc)
                  \<lparr>canal := (canal w)(proximo_id w \<mapsto> ?emb), proximo_id := proximo_id w + 1\<rparr>)"
  have c: "criar_mensagem J amb d (msgs_de d) (month_key year month) ?emb ?wc = (Inr (), ?w')"
    using assms(10) wa by (simp add: criar_mensagem_def Let_def)
  have a: "atualizar_mensagem_calendario J amb year month w = (Inr (), ?w')"
    unfolding atualizar_mensagem_calendario_def Let_def assms(3)
    using assms(2,5,6,7,8) ne o e c
    by (simp add: regs_de_def msgs_de_def)
  have t: "trace ?w' = trace wa @ ?ch @ [FetchMessage (Some i), ChannelSend ?emb, FileWrite (json_dump J ?d')]"
    by (simp add: salvar_dados_def registrar_evento_def)
  have k: "canal ?w' = (canal w)(proximo_id w \<mapsto> ?emb)" "proximo_id ?w' = proximo_id w + 1"
    by (simp_all add: salvar_dados_def registrar_evento_def)
  have m: "map_of (msgs_de ?d') (month_key year month) = Some [(''message_id'', proximo_id w)]"
    by (simp add: msgs_de_def update_conv')
  have q: "arquivo ?w' = Some (json_dump J ?d')" by simp
  have dc: "documento J ?w' = Inr ?d'"
    using assms(1) by (simp add: documento_arquivo codec_ok_def)
  from a t k m q dc show ?thesis by blast
qed

text \<open>
  An instance of C5: the stored reference of November 2025 names message 41, which is no
  longer in the channel; the platform gives the new message the id 42.
\<close>

theorem publicar_mensagem_sumida_2025_11:
  "\<exists>w' emb.
     atualizar_mensagem_calendario \<lparr>json_load = Inr, json_dump = id\<rparr>
         \<lparr>calendar_channel_id = 7, canal_em_cache = True, falha_fetch_channel = None,
           falha_fetch_message = None, falha_edit = None, falha_send = None\<rparr> 2025 11
         \<lparr>arquivo = Some \<lparr>registros = Some [],
                             mensagens = Some [(''2025-11'', [(''message_id'', 41)])]\<rparr>,
           canal = Map.empty, proximo_id = 42, trace = []\<rparr> = (Inr (), w') \<and>
     canal w' = [42 \<mapsto> emb] \<and>
     arquivo w' = Some \<lparr>registros = Some [],
                         mensagens = Some [(''2025-11'', [(''message_id'', 42)])]\<rparr> \<and>
     trace w' = [FileRead, FetchMessage (Some 41), ChannelSend emb,
                 FileWrite \<lparr>registros = Some [],
                             mensagens = Some [(''2025-11'', [(''message_id'', 42)])]\<rparr>]"
proof -
  define J :: "dados json" where "J = \<lparr>json_load = Inr, json_dump = id\<rparr>"
  define amb where "amb = \<lparr>calendar_channel_id = 7, canal_em_cache = True,
    falha_fetch_channel = None, falha_fetch_message = None, falha_edit = None, falha_send = None\<rparr>"
  define d where
    "d = \<lparr>registros = Some [], mensagens = Some [(''2025-11'', [(''message_id'', 41::int)])]\<rparr>"
  define w :: "dados mundo" where
    "w = \<lparr>arquivo = Some d, canal = Map.empty, proximo_id = 42, trace = []\<rparr>"
  have J: "codec_ok J" by (simp add: codec_ok_def J_def)
  have mk: "month_key 2025 11 = ''2025-11''" by code_simp
  have c: "carregar_dados J w = (Inr d, registrar_evento FileRead w)"
    by (simp add: carregar_dados_existe w_def J_def)
  from renderizar_vazio_Inr [of 11 2025] obtain descricao where
    r: "renderizar_calendario 2025 11 (regs_de d) = Inr descricao"
    by (auto simp: regs_de_def d_def)
  have p: "MESES_PT 11 = Some ''Novembro''" by (simp add: MESES_PT_def)
  have m: "map_of (msgs_de d) (month_key 2025 11) = Some [(''message_id'', 41)]"
    by (simp add: mk msgs_de_def d_def)
  have f: "fetch_message amb (Some 41) w = Inl NotFound"
    by (simp add: fetch_message_def amb_def w_def)
  from publicar_mensagem_sumida [OF J _ c _ r p m _ f]
  obtain w' emb where
    "atualizar_mensagem_calendario J amb 2025 11 w = (Inr (), w')"
    "trace w' = trace (registrar_evento FileRead w)
       @ (if canal_em_cache amb then [] else [FetchChannel (calendar_channel_id amb)])
       @ [FetchMessage (Some 41), ChannelSend emb,
          FileWrite (json_dump J (d\<lparr>mensagens := Some (AList.update (month_key 2025 11)
                                        [(''message_id'', proximo_id w)] (msgs_de d))\<rparr>))]"
    "canal w' = (canal w)(proximo_id w \<mapsto> emb)"
    "arquivo w' = Some (json_dump J (d\<lparr>mensagens := Some (AList.update (month_key 2025 11)
                                        [(''message_id'', proximo_id w)] (msgs_de d))\<rparr>))"
    by (auto simp: amb_def)
  then have "\<exists>w' emb.
     atualizar_mensagem_calendario J amb 2025 11 w = (Inr (), w') \<and>
     canal w' = [42 \<mapsto> emb] \<and>
     arquivo w' = Some \<lparr>registros = Some [],
                         mensagens = Some [(''2025-11'', [(''message_id'', 42)])]\<rparr> \<and>
     trace w' = [FileRead, FetchMessage (Some 41), ChannelSend emb,
                 FileWrite \<lparr>registros = Some [],
                             mensagens = Some [(''2025-11'', [(''message_id'', 42)])]\<rparr>]"
    by (intro exI [of _ w'] exI [of _ emb])
      (simp add: mk msgs_de_def d_def w_def amb_def J_def)
  then show ?thesis unfolding J_def amb_def w_def d_def .
qed

subsection \<open>C6: the month argument of the commands\<close>

text \<open>
  C6 fails on the code for \<open>!atualizar_calendario\<close>: the command has no check of the
  month (\<open>!calendario\<close> has one, lines 292 to 294). With month 13, a configured channel
  and a store that does not exist yet, the command creates and reads the file, then ends
  with calendar's IllegalMonthError; nothing is sent to the user.
\<close>

theorem comando_atualizar_calendario_mes_13:
  "comando_atualizar_calendario \<lparr>json_load = Inr, json_dump = id\<rparr>
       \<lparr>calendar_channel_id = 7, canal_em_cache = True, falha_fetch_channel = None,
         falha_fetch_message = None, falha_edit = None, falha_send = None\<rparr>
       \<lparr>administrator = True\<rparr>
       \<lparr>dt_year = 2025, dt_month = 11, dt_day = 28, dt_hour = 9, dt_minute = 0\<rparr>
       (Some 2025) (Some 13)
       \<lparr>arquivo = None, canal = Map.empty, proximo_id = 1, trace = []\<rparr> =
     (Inl IllegalMonthError,
      \<lparr>arquivo = Some documento_vazio, canal = Map.empty, proximo_id = 1,
        trace = [FileWrite documento_vazio, FileRead]\<rparr>)"
  by (simp add: comando_atualizar_calendario_def atualizar_mensagem_calendario_def
      carregar_dados_def garantir_arquivo_def registrar_evento_def obter_canal_def
      renderizar_mes_invalido documento_vazio_def)

subsection \<open>C7: a month without records\<close>

text \<open>
  C7, as the code has it. The renderer adds the notice when no stored date key starts
  with the text \<open>YYYY-MM\<close> of the month (lines 116 to 123). So for a month in 1 to 12 (and
  any year) and a record set without such a key, in particular the empty one,
  renderizar_calendario does not raise, and the string it returns, split at line breaks,
  is exactly the fence, the weekday header, one row per week of the month, the closing
  fence and the fixed notice that the month has no records yet.
\<close>

theorem renderizar_sem_registros:
  assumes "1 \<le> month" and "month \<le> 12"
    and "\<forall>data_str \<in> fst ` set regs. \<not> startswith data_str (month_key year month)"
  shows "\<exists>weeks out.
           monthdayscalendar year month = Inr weeks \<and>
           (\<forall>week \<in> set weeks. length week = 7) \<and>
           concat weeks =
             replicate (nat (weekday year month 1 mod 7)) 0 @ [1..days_in_month year month]
               @ replicate (nat ((0 - weekday year month 1 - days_in_month year month) mod 7)) 0 \<and>
           renderizar_calendario year month regs = Inr out \<and>
           split_sep (CHR 0x0A) out =
             [cerca, cabecalho] @ map linha_semana weeks @ [cerca, aviso_sem_registros]"
proof -
  from monthdayscalendar_semanas [OF assms(1,2), of year] obtain weeks where
    w: "monthdayscalendar year month = Inr weeks"
    and w7: "\<forall>week \<in> set weeks. length week = 7"
    and cw: "concat weeks =
      replicate (nat (weekday year month 1 mod 7)) 0 @ [1..days_in_month year month]
        @ replicate (nat ((0 - weekday year month 1 - days_in_month year month) mod 7)) 0"
    by blast
  let ?linhas = "[cerca, cabecalho] @ map linha_semana weeks @ [cerca, aviso_sem_registros]"
  have r: "renderizar_calendario year month regs = Inr (join nl ?linhas)"
    using w assms(3)
    by (simp add: renderizar_calendario_def linhas_calendario_def registros_mes_nenhum)
  have "\<forall>l \<in> set ?linhas. CHR 0x0A \<notin> set l"
    using semanas_sem_nl [OF assms(1,2) w] aviso_fora_da_grade by auto
  then have "concat (map (split_sep (CHR 0x0A)) ?linhas) = ?linhas"
    by (rule split_sep_linhas_grade)
  moreover have "split_sep (CHR 0x0A) (join nl ?linhas) = concat (map (split_sep (CHR 0x0A)) ?linhas)"
    unfolding nl_def by (intro split_sep_join) simp
  ultimately have "split_sep (CHR 0x0A) (join nl ?linhas) = ?linhas" by simp
  with w w7 cw r show ?thesis by blast
qed

text \<open>
  The scenario of C7: \<open>!calendario 2024 5\<close> on a store that does not exist yet (with the
  identity as JSON codec) creates the empty document, reads it and replies with the
  grid of May 2024 followed by the notice; the description of the embed is written out
  character by character.
\<close>

theorem comando_calendario_2024_5_vazio:
  "comando_calendario \<lparr>json_load = Inr, json_dump = id\<rparr> \<lparr>administrator = False\<rparr> 2024 5
       \<lparr>arquivo = None, canal = Map.empty, proximo_id = 1, trace = []\<rparr> =
     (Inr (),
      \<lparr>arquivo = Some \<lparr>registros = Some [], mensagens = Some []\<rparr>, canal = Map.empty,
        proximo_id = 1,
        trace = [FileWrite \<lparr>registros = Some [], mensagens = Some []\<rparr>, FileRead,
                 CtxSendEmbed
                   \<lparr>title = ''Calend'' @ [CHR 0xE1] @ ''rio de ponto - Maio/2024'',
                     description =
                       [CHR 0x60, CHR 0x60, CHR 0x60, CHR 0x0A]
                       @ ''Seg Ter Qua Qui Sex S'' @ [CHR 0xE1] @ ''b Dom'' @ [CHR 0x0A]
                       @ ''         1   2   3   4   5 '' @ [CHR 0x0A]
                       @ '' 6   7   8   9  10  11  12 '' @ [CHR 0x0A]
                       @ ''13  14  15  16  17  18  19 '' @ [CHR 0x0A]
                       @ ''20  21  22  23  24  25  26 '' @ [CHR 0x0A]
                       @ ''27  28  29  30  31         '' @ [CHR 0x0A]
                       @ [CHR 0x60, CHR 0x60, CHR 0x60, CHR 0x0A]
                       @ ''_Ainda n'' @ [CHR 0xE3] @ ''o h'' @ [CHR 0xE1]
                       @ '' registros de ponto neste m'' @ [CHR 0xEA] @ ''s._''\<rparr>]\<rparr>)"
proof -
  have m: "monthdayscalendar 2024 5 = Inr [[0, 0, 1, 2, 3, 4, 5], [6, 7, 8, 9, 10, 11, 12],
      [13, 14, 15, 16, 17, 18, 19], [20, 21, 22, 23, 24, 25, 26], [27, 28, 29, 30, 31, 0, 0]]"
    by code_simp
  have l: "map linha_semana [[0, 0, 1, 2, 3, 4, 5], [6, 7, 8, 9, 10, 11, 12],
      [13, 14, 15, 16, 17, 18, 19], [20, 21, 22, 23, 24, 25, 26], [27, 28, 29, 30, 31, 0, 0]]
     = [''         1   2   3   4   5 '',
        '' 6   7   8   9  10  11  12 '',
        ''13  14  15  16  17  18  19 '',
        ''20  21  22  23  24  25  26 '',
        ''27  28  29  30  31         '']"
    by code_simp
  have t: "titulo_calendario ''Maio'' 2024 = ''Calend'' @ [CHR 0xE1] @ ''rio de ponto - Maio/2024''"
    by code_simp
  have p: "MESES_PT 5 = Some ''Maio''" by (simp add: MESES_PT_def)
  from renderizar_sem_registros [of 5 "[]" 2024] m l obtain out where
    r: "renderizar_calendario 2024 5 [] = Inr out"
    and sp: "split_sep (CHR 0x0A) out =
      [cerca, cabecalho,
       ''         1   2   3   4   5 '',
       '' 6   7   8   9  10  11  12 '',
       ''13  14  15  16  17  18  19 '',
       ''20  21  22  23  24  25  26 '',
       ''27  28  29  30  31         '',
       cerca, aviso_sem_registros]"
    by auto
  have "out = join [CHR 0x0A] (split_sep (CHR 0x0A) out)" by (simp add: join_split_sep)
  then have o: "out = [CHR 0x60, CHR 0x60, CHR 0x60, CHR 0x0A]
                       @ ''Seg Ter Qua Qui Sex S'' @ [CHR 0xE1] @ ''b Dom'' @ [CHR 0x0A]
                       @ ''         1   2   3   4   5 '' @ [CHR 0x0A]
                       @ '' 6   7   8   9  10  11  12 '' @ [CHR 0x0A]
                       @ ''13  14  15  16  17  18  19 '' @ [CHR 0x0A]
                       @ ''20  21  22  23  24  25  26 '' @ [CHR 0x0A]
                       @ ''27  28  29  30  31         '' @ [CHR 0x0A]
                       @ [CHR 0x60, CHR 0x60, CHR 0x60, CHR 0x0A]
                       @ ''_Ainda n'' @ [CHR 0xE3] @ ''o h'' @ [CHR 0xE1]
                       @ '' registros de ponto neste m'' @ [CHR 0xEA] @ ''s._''"
    unfolding sp by (simp add: cerca_def cabecalho_def aviso_sem_registros_def)
  show ?thesis
    using r unfolding o
    by (simp add: comando_calendario_def carregar_dados_def garantir_arquivo_def
        registrar_evento_def documento_vazio_def p t)
qed

text \<open>
  C7 as stated fails: a store that has the date 2021-02-01 with no record of any user
  has no record in February 2021, and yet the renderer lists the day instead of adding
  the notice.
\<close>

theorem renderizar_data_sem_registros:
  "\<exists>out. renderizar_calendario 2021 2 [(''2021-02-01'', [])] = Inr out \<and>
         aviso_sem_registros \<notin> set (split_sep (CHR 0x0A) out) \<and>
         titulo_registros \<in> set (split_sep (CHR 0x0A) out)"
proof -
  have "case renderizar_calendario 2021 2 [(''2021-02-01'', [])] of
          Inl _ \<Rightarrow> False
        | Inr out \<Rightarrow> aviso_sem_registros \<notin> set (split_sep (CHR 0x0A) out) \<and>
                     titulo_registros \<in> set (split_sep (CHR 0x0A) out)"
    by code_simp
  then show ?thesis
    by (cases "renderizar_calendario 2021 2 [(''2021-02-01'', [])]") auto
qed

subsection \<open>C8: an entry without an exit\<close>

text \<open>
  C8. A record that has an entry stamped (the text \<open>strftime("%Y-%m-%d %H:%M")\<close> of a
  time) and no exit (the placeholder, or no field) is listed by renderizar_calendario for
  its month with the entry cut to hour:minute and \<open>--:--\<close> for the exit: the string
  returned holds the text \<open>- name: entrada HH:MM | saida --:--\<close> (with the accent of the
  source) from the start of a line to the end of a line, and when the name has no line
  break that text is one of the lines of the string. The stored dictionary has distinct
  keys, and the dates of that month are dates (otherwise \<open>strptime\<close> raises).
\<close>

theorem renderizar_so_entrada:
  assumes "1 \<le> month" and "month \<le> 12"
    and "distinct (map fst regs)"
    and "\<forall>k \<in> fst ` set regs.
           startswith k (month_key year month) \<longrightarrow> (\<exists>d. strptime_ymd k = Inr d)"
    and "map_of regs data_str = Some us"
    and "startswith data_str (month_key year month)"
    and "map_of us uid = Some info"
    and "map_of info ''entrada'' = Some (strftime_minuto agora)"
    and "0 \<le> dt_hour agora" and "dt_hour agora \<le> 23"
    and "0 \<le> dt_minute agora" and "dt_minute agora \<le> 59"
    and "map_of info ''saida'' = None \<or> map_of info ''saida'' = Some ''--:--''"
  shows "\<exists>out pre post.
           renderizar_calendario year month regs = Inr out \<and>
           out = pre
                 @ (''- '' @ nome_de uid info @ '': entrada ''
                      @ fmt_0d 2 (dt_hour agora) @ '':'' @ fmt_0d 2 (dt_minute agora)
                      @ '' | sa'' @ [CHR 0xED] @ ''da --:--'')
                 @ post \<and>
           (pre = [] \<or> last pre = CHR 0x0A) \<and> (post = [] \<or> hd post = CHR 0x0A) \<and>
           (CHR 0x0A \<notin> set (nome_de uid info) \<longrightarrow>
              ''- '' @ nome_de uid info @ '': entrada ''
                @ fmt_0d 2 (dt_hour agora) @ '':'' @ fmt_0d 2 (dt_minute agora)
                @ '' | sa'' @ [CHR 0xED] @ ''da --:--'' \<in> set (split_sep (CHR 0x0A) out))"
proof -
  let ?mk = "month_key year month"
  let ?rm = "registros_mes ?mk regs"
  define linha where "linha = ''- '' @ nome_de uid info @ '': entrada ''
      @ fmt_0d 2 (dt_hour agora) @ '':'' @ fmt_0d 2 (dt_minute agora)
      @ '' | sa'' @ [CHR 0xED] @ ''da --:--''"
  have rm: "?rm = filter (\<lambda>(k, us). startswith k ?mk) regs"
    using assms(3) by (rule registros_mes_filter)
  have look: "map_of ?rm data_str = Some us"
    unfolding rm using assms(5,6) by (simp add: map_of_filter_in)
  then have ne: "?rm \<noteq> []" by auto
  have "\<forall>k \<in> set (sort (map fst ?rm)). (\<exists>d. strptime_ymd k = Inr d) \<and> map_of ?rm k \<noteq> None"
  proof
    fix k assume "k \<in> set (sort (map fst ?rm))"
    then have k: "k \<in> fst ` set ?rm" by simp
    then have "k \<in> fst ` set regs" "startswith k ?mk" unfolding rm by auto
    with assms(4) have "\<exists>d. strptime_ymd k = Inr d" by blast
    moreover from k have "map_of ?rm k \<noteq> None" by (simp add: map_of_eq_None_iff)
    ultimately show "(\<exists>d. strptime_ymd k = Inr d) \<and> map_of ?rm k \<noteq> None" ..
  qed
  from linhas_dias_Inr [OF this] obtain ls where
    ls: "linhas_dias month ?rm (sort (map fst ?rm)) = Inr ls" ..
  from look have "data_str \<in> set (sort (map fst ?rm))"
    by (metis domI dom_map_of_conv_image_fst set_map set_sort)
  from linhas_dias_contem [OF ls this look map_of_SomeD [OF assms(7)]]
  have "linha_usuario uid info \<in> set ls" .
  moreover from assms have "linha_usuario uid info =
      ''- '' @ (case map_of info ''name'' of None \<Rightarrow> uid | Some n \<Rightarrow> n) @ '': entrada ''
        @ fmt_0d 2 (dt_hour agora) @ '':'' @ fmt_0d 2 (dt_minute agora)
        @ '' | sa'' @ [CHR 0xED] @ ''da --:--''"
    by (intro linha_usuario_so_entrada) auto
  ultimately have m: "linha \<in> set ls" by (simp add: linha_def nome_de_def)
  obtain weeks where w: "monthdayscalendar year month = Inr weeks"
    using monthdayscalendar_Inr [OF assms(1,2)] by blast
  define linhas where
    "linhas = [cerca, cabecalho] @ map linha_semana weeks @ [cerca] @ [titulo_registros] @ ls"
  have r: "renderizar_calendario year month regs = Inr (join [CHR 0x0A] linhas)"
    using w ne ls by (simp add: renderizar_calendario_def linhas_calendario_def linhas_def nl_def)
  have ml: "linha \<in> set linhas" using m by (simp add: linhas_def)
  from join_contem [OF ml, of "CHR 0x0A"] obtain pre post where
    pp: "join [CHR 0x0A] linhas = pre @ linha @ post" "pre = [] \<or> last pre = CHR 0x0A"
      "post = [] \<or> hd post = CHR 0x0A"
    by blast
  have sp: "CHR 0x0A \<notin> set (nome_de uid info) \<longrightarrow>
      linha \<in> set (split_sep (CHR 0x0A) (join [CHR 0x0A] linhas))"
  proof
    assume "CHR 0x0A \<notin> set (nome_de uid info)"
    then have "CHR 0x0A \<notin> set linha" by (simp add: linha_def fmt_0d_sem_nl)
    with ml show "linha \<in> set (split_sep (CHR 0x0A) (join [CHR 0x0A] linhas))"
      by (rule split_sep_join_contem)
  qed
  from r pp sp show ?thesis unfolding linha_def by blast
qed

text \<open>
  The scenario of C8: the record of alice with the entry stamped at 2025-11-28 09:00.
\<close>

theorem renderizar_alice_2025_11:
  "\<exists>out.
     renderizar_calendario 2025 11
       [(''2025-11-28'',
         [(''1'', [(''name'', ''alice''), (''entrada'', ''2025-11-28 09:00''),
                   (''saida'', ''--:--'')])])] = Inr out \<and>
     ''- alice: entrada 09:00 | sa'' @ [CHR 0xED] @ ''da --:--'' \<in> set (split_sep (CHR 0x0A) out)"
proof -
  define agora where
    "agora = \<lparr>dt_year = 2025, dt_month = 11, dt_day = 28, dt_hour = 9, dt_minute = 0\<rparr>"
  define info :: info where
    "info = [(''name'', ''alice''), (''entrada'', ''2025-11-28 09:00''), (''saida'', ''--:--'')]"
  have mk: "month_key 2025 11 = ''2025-11''" by code_simp
  have sp: "strptime_ymd ''2025-11-28'' = Inr (2025, 11, 28)" by code_simp
  have st: "strftime_minuto agora = ''2025-11-28 09:00''" unfolding agora_def by code_simp
  have f: "fmt_0d 2 9 = ''09''" "fmt_0d 2 0 = ''00''" by code_simp+
  have n: "nome_de ''1'' info = ''alice''" by (simp add: nome_de_def info_def)
  have "\<exists>out pre post.
           renderizar_calendario 2025 11 [(''2025-11-28'', [(''1'', info)])] = Inr out \<and>
           out = pre
                 @ (''- '' @ nome_de ''1'' info @ '': entrada ''
                      @ fmt_0d 2 (dt_hour agora) @ '':'' @ fmt_0d 2 (dt_minute agora)
                      @ '' | sa'' @ [CHR 0xED] @ ''da --:--'')
                 @ post \<and>
           (pre = [] \<or> last pre = CHR 0x0A) \<and> (post = [] \<or> hd post = CHR 0x0A) \<and>
           (CHR 0x0A \<notin> set (nome_de ''1'' info) \<longrightarrow>
              ''- '' @ nome_de ''1'' info @ '': entrada ''
                @ fmt_0d 2 (dt_hour agora) @ '':'' @ fmt_0d 2 (dt_minute agora)
                @ '' | sa'' @ [CHR 0xED] @ ''da --:--'' \<in> set (split_sep (CHR 0x0A) out))"
    by (rule renderizar_so_entrada [where data_str = "''2025-11-28''" and us = "[(''1'', info)]"])
      (simp_all add: mk sp st, simp_all add: info_def agora_def)
  then obtain out where
    "renderizar_calendario 2025 11 [(''2025-11-28'', [(''1'', info)])] = Inr out"
    "CHR 0x0A \<notin> set (nome_de ''1'' info) \<longrightarrow>
       ''- '' @ nome_de ''1'' info @ '': entrada ''
         @ fmt_0d 2 (dt_hour agora) @ '':'' @ fmt_0d 2 (dt_minute agora)
         @ '' | sa'' @ [CHR 0xED] @ ''da --:--'' \<in> set (split_sep (CHR 0x0A) out)"
    by blast
  then have "\<exists>out. renderizar_calendario 2025 11 [(''2025-11-28'', [(''1'', info)])] = Inr out \<and>
     ''- alice: entrada 09:00 | sa'' @ [CHR 0xED] @ ''da --:--'' \<in> set (split_sep (CHR 0x0A) out)"
    by (intro exI [of _ out]) (simp add: n f agora_def)
  then show ?thesis unfolding info_def .
qed

subsection \<open>C9: the round trip of the store\<close>



subsection \<open>C10: the frame of the record write\<close>

text \<open>
  C10. Frame of the record write of registrar_ponto (the load, the stamping and the save
  that come before the publish). The document saved differs from the one loaded only in
  the record of the acting user on the day of the click: that record is the stored one,
  or a new one with the display name and two placeholders when there was none, with the
  field of the kind of click (\<open>entrada\<close>, otherwise \<open>saida\<close>) set to the time, so its
  other fields stay. Every other date, every other user of that day and \<open>mensagens\<close>
  are as loaded.
\<close>

theorem registrar_ponto_salvar_frame:
  assumes "carregar_dados J w = (Inr d, w1)"
  shows "\<exists>d'. registrar_ponto_salvar J interaction tipo agora w =
                 (Inr (msg_conf tipo (display_name interaction) (strftime_minuto agora)),
                  salvar_dados J d' w1) \<and>
              arquivo (salvar_dados J d' w1) = Some (json_dump J d') \<and>
              mensagens d' = mensagens d \<and>
              (\<forall>k. k \<noteq> get_date_str agora \<longrightarrow> map_of (regs_de d') k = map_of (regs_de d) k) \<and>
              (\<forall>u. u \<noteq> str_int (user_id interaction) \<longrightarrow>
                     registro_de (regs_de d') (get_date_str agora) u =
                       registro_de (regs_de d) (get_date_str agora) u) \<and>
              registro_de (regs_de d') (get_date_str agora) (str_int (user_id interaction)) =
                Some (AList.update (campo_de tipo) (strftime_minuto agora)
                        (case registro_de (regs_de d) (get_date_str agora)
                                (str_int (user_id interaction)) of
                           None \<Rightarrow> registro_novo (display_name interaction)
                         | Some i \<Rightarrow> i))"
proof -
  let ?regs' = "marcar_ponto (get_date_str agora) (str_int (user_id interaction))
                  (display_name interaction) tipo (strftime_minuto agora) (regs_de d)"
  let ?d' = "d\<lparr>registros := Some ?regs'\<rparr>"
  have r: "regs_de ?d' = ?regs'" by (simp add: regs_de_def)
  have "registrar_ponto_salvar J interaction tipo agora w =
          (Inr (msg_conf tipo (display_name interaction) (strftime_minuto agora)),
           salvar_dados J ?d' w1)"
    using assms by (simp add: registrar_ponto_salvar_def Let_def regs_de_def)
  then show ?thesis
    by (intro exI [of _ ?d'])
      (simp add: r map_of_marcar_ponto_outra_data registro_de_marcar_ponto_outro_usuario
        registro_de_marcar_ponto)
qed

text \<open>
  An instance of C10: bob (user 2) clocks in on a day that already has alice's record,
  with another day and a calendar message stored.
\<close>

theorem registrar_ponto_salvar_frame_bob:
  "\<exists>d'. arquivo (snd (registrar_ponto_salvar \<lparr>json_load = Inr, json_dump = id\<rparr>
                        \<lparr>user_id = 2, display_name = ''bob''\<rparr> ''entrada''
                        \<lparr>dt_year = 2025, dt_month = 11, dt_day = 28, dt_hour = 9, dt_minute = 5\<rparr>
                        \<lparr>arquivo = Some \<lparr>registros = Some
                             [(''2025-11-27'', [(''2'', [(''name'', ''bob'')])]),
                              (''2025-11-28'', [(''1'', [(''name'', ''alice''),
                                 (''entrada'', ''2025-11-28 08:00''), (''saida'', ''--:--'')])])],
                            mensagens = Some [(''2025-11'', [(''message_id'', 41)])]\<rparr>,
                          canal = Map.empty, proximo_id = 42, trace = []\<rparr>)) = Some d' \<and>
        mensagens d' = Some [(''2025-11'', [(''message_id'', 41)])] \<and>
        map_of (regs_de d') ''2025-11-27'' = Some [(''2'', [(''name'', ''bob'')])] \<and>
        registro_de (regs_de d') ''2025-11-28'' ''1'' =
          Some [(''name'', ''alice''), (''entrada'', ''2025-11-28 08:00''), (''saida'', ''--:--'')] \<and>
        registro_de (regs_de d') ''2025-11-28'' ''2'' =
          Some [(''name'', ''bob''), (''entrada'', ''2025-11-28 09:05''), (''saida'', ''--:--'')]"
proof -
  define J :: "dados json" where "J = \<lparr>json_load = Inr, json_dump = id\<rparr>"
  define d where "d = \<lparr>registros = Some
                             [(''2025-11-27'', [(''2'', [(''name'', ''bob'')])]),
                              (''2025-11-28'', [(''1'', [(''name'', ''alice''),
                                 (''entrada'', ''2025-11-28 08:00''), (''saida'', ''--:--'')])])],
                            mensagens = Some [(''2025-11'', [(''message_id'', 41)])]\<rparr>"
  define w :: "dados mundo" where
    "w = \<lparr>arquivo = Some d, canal = Map.empty, proximo_id = 42, trace = []\<rparr>"
  define agora where
    "agora = \<lparr>dt_year = 2025, dt_month = 11, dt_day = 28, dt_hour = 9, dt_minute = 5\<rparr>"
  have l: "carregar_dados J w = (Inr d, registrar_evento FileRead w)"
    by (simp add: carregar_dados_existe w_def J_def)
  have g: "get_date_str agora = ''2025-11-28''" unfolding agora_def by code_simp
  have s: "strftime_minuto agora = ''2025-11-28 09:05''" unfolding agora_def by code_simp
  have u: "str_int 2 = ''2''" by code_simp
  have rd: "regs_de d = [(''2025-11-27'', [(''2'', [(''name'', ''bob'')])]),
                              (''2025-11-28'', [(''1'', [(''name'', ''alice''),
                                 (''entrada'', ''2025-11-28 08:00''), (''saida'', ''--:--'')])])]"
    by (simp add: regs_de_def d_def)
  define i0 where "i0 = \<lparr>user_id = 2, display_name = ''bob''\<rparr>"
  have i0: "user_id i0 = 2" "display_name i0 = ''bob''" by (simp_all add: i0_def)
  from registrar_ponto_salvar_frame [OF l, of i0 "''entrada''" agora]
  obtain d' where
    "registrar_ponto_salvar J i0 ''entrada'' agora w =
       (Inr (msg_conf ''entrada'' (display_name i0) (strftime_minuto agora)),
        salvar_dados J d' (registrar_evento FileRead w))"
    and m: "mensagens d' = mensagens d"
    and k: "\<forall>k. k \<noteq> get_date_str agora \<longrightarrow> map_of (regs_de d') k = map_of (regs_de d) k"
    and o: "\<forall>u. u \<noteq> str_int (user_id i0) \<longrightarrow>
              registro_de (regs_de d') (get_date_str agora) u =
                registro_de (regs_de d) (get_date_str agora) u"
    and n: "registro_de (regs_de d') (get_date_str agora) (str_int (user_id i0)) =
              Some (AList.update (campo_de ''entrada'') (strftime_minuto agora)
                      (case registro_de (regs_de d) (get_date_str agora) (str_int (user_id i0)) of
                         None \<Rightarrow> registro_novo (display_name i0)
                       | Some i \<Rightarrow> i))"
    by blast
  then have 1: "arquivo (snd (registrar_ponto_salvar J i0 ''entrada'' agora w)) = Some d'"
    by (simp add: J_def)
  have 2: "mensagens d' = Some [(''2025-11'', [(''message_id'', 41)])]"
    using m by (simp add: d_def)
  have 3: "map_of (regs_de d') ''2025-11-27'' = Some [(''2'', [(''name'', ''bob'')])]"
    using k [rule_format, of "''2025-11-27''"] by (simp add: g rd)
  have 4: "registro_de (regs_de d') ''2025-11-28'' ''1'' =
          Some [(''name'', ''alice''), (''entrada'', ''2025-11-28 08:00''), (''saida'', ''--:--'')]"
    using o [rule_format, of "''1''"] by (simp add: g u i0 rd registro_de_def)
  have 5: "registro_de (regs_de d') ''2025-11-28'' ''2'' =
          Some [(''name'', ''bob''), (''entrada'', ''2025-11-28 09:05''), (''saida'', ''--:--'')]"
    using n by (simp add: g u s i0 rd registro_de_def campo_de_def registro_novo_def)
  have "\<exists>d'. arquivo (snd (registrar_ponto_salvar J i0 ''entrada'' agora w)) = Some d' \<and>
        mensagens d' = Some [(''2025-11'', [(''message_id'', 41)])] \<and>
        map_of (regs_de d') ''2025-11-27'' = Some [(''2'', [(''name'', ''bob'')])] \<and>
        registro_de (regs_de d') ''2025-11-28'' ''1'' =
          Some [(''name'', ''alice''), (''entrada'', ''2025-11-28 08:00''), (''saida'', ''--:--'')] \<and>
        registro_de (regs_de d') ''2025-11-28'' ''2'' =
          Some [(''name'', ''bob''), (''entrada'', ''2025-11-28 09:05''), (''saida'', ''--:--'')]"
    using 1 2 3 4 5 by (intro exI [of _ d'] conjI)
  then show ?thesis
    unfolding J_def w_def d_def agora_def i0_def .
qed

end
